theory Spec2Isabelle
  imports Main "HOL-Library.AList"
begin

section \<open>Strings, dictionaries and exceptions\<close>

text \<open>
  A Python \<open>str\<close> is a \<^typ>\<open>string\<close>; one \<^typ>\<open>char\<close> stands for one code point, so the
  model covers the code points below 256. \<open>isspace\<close> lists the code points below 256 that
  \<open>str.strip()\<close> removes: 9 to 13, 28 to 32, 133 and 160.
\<close>

definition isspace :: "char \<Rightarrow> bool" where
  "isspace c =
     (let n = (of_char c :: nat)
      in (9 \<le> n \<and> n \<le> 13) \<or> (28 \<le> n \<and> n \<le> 32) \<or> n = 133 \<or> n = 160)"

definition strip :: "string \<Rightarrow> string" where
  "strip s = rev (dropWhile isspace (rev (dropWhile isspace s)))"

text \<open>
  A \<open>dict\<close> from \<open>str\<close> to \<open>str\<close> keeps its keys in insertion order, and storing under a key
  that is present replaces the value in place: an association list written with
  \<^const>\<open>AList.update\<close>.
\<close>

type_synonym pydict = "(string \<times> string) list"

text \<open>
  The exceptions of the program. \<open>RequestException\<close> stands for every exception of
  \<open>requests.exceptions\<close> that \<open>requests.get\<close> raises, \<open>HTTPError\<close> (a subclass of it) is
  the one \<open>raise_for_status\<close> raises and carries the status code, \<open>ConnectionError\<close> is the
  built-in one and carries the exception it was raised \<open>from\<close>, and \<open>OtherException\<close> is any
  other subclass of \<open>Exception\<close>. Signals that are not subclasses of \<open>Exception\<close>
  (\<open>KeyboardInterrupt\<close>, \<open>SystemExit\<close>) are not modelled, and neither is what \<open>print\<close> writes.
\<close>

datatype exn =
    ValueError string
  | ConnectionError exn
  | RequestException string
  | HTTPError int
  | ParseError
  | SyntaxError
  | KeyError string
  | OtherException string

fun is_RequestException :: "exn \<Rightarrow> bool" where
  "is_RequestException (RequestException m) = True"
| "is_RequestException (HTTPError st) = True"
| "is_RequestException e = False"

section \<open>The element tree (\<open>xml.etree.ElementTree\<close>)\<close>

text \<open>
  An \<open>Element\<close> with the three attributes the program reads: \<open>tag\<close>, \<open>text\<close> (here
  \<open>etext\<close>; \<open>None\<close> when the element has no character data before its first child) and
  the child elements that iterating over it yields.
\<close>

datatype element = Element (tag: string) (etext: "string option") (children: "element list")

text \<open>
  The library is a parameter of the model. \<open>fromstring\<close> parses a document or raises.
  \<open>Element.find\<close> and \<open>Element.findall\<close> take a path: for a path that is a plain name the
  match is on the tags of the immediate children, which \<open>et_find\<close> and \<open>et_findall\<close>
  compute; any other path (one with a character of the path syntax, or the empty one) is
  handed to the library's path evaluator, \<open>elementpath_find\<close> and \<open>elementpath_findall\<close>,
  which may raise.
\<close>

record etree =
  fromstring :: "string \<Rightarrow> exn + element"
  elementpath_find :: "element \<Rightarrow> string \<Rightarrow> exn + element option"
  elementpath_findall :: "element \<Rightarrow> string \<Rightarrow> exn + element list"

definition pathchar :: "char \<Rightarrow> bool" where
  "pathchar c = (c \<in> set ''/*[]()@!=.:{}'' \<or> c = CHR 0x27 \<or> c = CHR 0x22 \<or> isspace c)"

definition plain_name :: "string \<Rightarrow> bool" where
  "plain_name p = (p \<noteq> [] \<and> filter pathchar p = [])"

definition et_find :: "etree \<Rightarrow> element \<Rightarrow> string \<Rightarrow> exn + element option" where
  "et_find lib e p =
     (if plain_name p then Inr (List.find (\<lambda>c. tag c = p) (children e))
      else elementpath_find lib e p)"

definition et_findall :: "etree \<Rightarrow> element \<Rightarrow> string \<Rightarrow> exn + element list" where
  "et_findall lib e p =
     (if plain_name p then Inr (filter (\<lambda>c. tag c = p) (children e))
      else elementpath_findall lib e p)"

section \<open>The response normalizer (\<open>narou_api._parse_xml_response\<close>)\<close>

text \<open>
  The inner loop, \<open>for child in item_elem\<close>: \<open>item_data[child.tag] = text_content\<close> with
  \<open>text_content = child.text.strip() if child.text else ""\<close>.
\<close>

definition text_content :: "element \<Rightarrow> string" where
  "text_content child =
     (case etext child of
        None \<Rightarrow> []
      | Some t \<Rightarrow> if t \<noteq> [] then strip t else [])"

fun item_fields :: "element list \<Rightarrow> pydict \<Rightarrow> pydict" where
  "item_fields [] item_data = item_data"
| "item_fields (child # rest) item_data =
     item_fields rest (AList.update (tag child) (text_content child) item_data)"

text \<open>
  The outer loop, \<open>for item_elem in item_elements\<close>: the dictionary is appended only when
  it is not empty (\<open>if item_data\<close>).
\<close>

fun collect_items :: "element list \<Rightarrow> pydict list \<Rightarrow> pydict list" where
  "collect_items [] items = items"
| "collect_items (item_elem # rest) items =
     (let item_data = item_fields (children item_elem) []
      in collect_items rest (if item_data \<noteq> [] then items @ [item_data] else items))"

text \<open>
  The body of the \<open>try\<close>, started with the list \<open>items\<close>. It returns the exception raised,
  if one is, and \<open>items\<close> as it is then. \<open>results_element\<close> is the element \<open>find\<close> returns,
  or \<open>root\<close> when it returns \<open>None\<close>; it is never \<open>None\<close> afterwards, so the \<open>else []\<close> of
  the conditional that follows is dead. Every call that can raise comes before the first
  \<open>items.append\<close>.
\<close>

definition results_element :: "element \<Rightarrow> element option \<Rightarrow> element" where
  "results_element root found = (case found of None \<Rightarrow> root | Some g \<Rightarrow> g)"

definition parse_xml_try ::
  "etree \<Rightarrow> string \<Rightarrow> string \<Rightarrow> string \<Rightarrow> pydict list \<Rightarrow> exn option \<times> pydict list" where
  "parse_xml_try lib xml_string result_tag item_tag items =
     (case fromstring lib xml_string of
        Inl e \<Rightarrow> (Some e, items)
      | Inr root \<Rightarrow>
          (case et_find lib root result_tag of
             Inl e \<Rightarrow> (Some e, items)
           | Inr found \<Rightarrow>
               (case et_findall lib (results_element root found) item_tag of
                  Inl e \<Rightarrow> (Some e, items)
                | Inr item_elements \<Rightarrow> (None, collect_items item_elements items))))"

text \<open>
  \<open>_parse_xml_response\<close> (the name cannot start with an underscore here): \<open>items = []\<close>,
  the \<open>try\<close>, and \<open>return items\<close>. Both handlers, \<open>except ET.ParseError\<close> and
  \<open>except Exception\<close>, print and fall through to the \<open>return\<close>. The result is a sum so that
  returning is a statement: \<open>Inr\<close> is a returned list.
\<close>

definition parse_xml_response :: "etree \<Rightarrow> string \<Rightarrow> string \<Rightarrow> string \<Rightarrow> exn + pydict list" where
  "parse_xml_response lib xml_string result_tag item_tag =
     (case parse_xml_try lib xml_string result_tag item_tag [] of
        (raised, items) \<Rightarrow> Inr items)"

section \<open>The catalog client (\<open>narou_api.search_books\<close>, \<open>narou_api.find_libraries_for_book\<close>)\<close>

text \<open>
  \<open>requests.get(endpoint, params=params, timeout=t)\<close> is a parameter as well: the
  transport sees the requests issued so far and the request, and either raises or
  returns a response, of which the program reads the status and \<open>text\<close> (here \<open>body\<close>).
  Each operation
  takes the list of the requests issued so far and returns it with its own request
  appended when it issues one.
\<close>

datatype param = PStr string | PInt int

record request =
  endpoint :: string
  params :: "(string \<times> param) list"
  timeout :: nat

record response =
  status_code :: int
  body :: string

type_synonym transport = "request list \<Rightarrow> request \<Rightarrow> exn + response"

definition BASE_URL :: string where
  "BASE_URL = ''http://data4library.kr/api''"

text \<open>
  \<open>Response.raise_for_status\<close> raises \<open>HTTPError\<close> for a status from 400 to 599 and returns
  for every other one.
\<close>

definition raise_for_status :: "response \<Rightarrow> exn + unit" where
  "raise_for_status r =
     (if 400 \<le> status_code r \<and> status_code r < 600 then Inl (HTTPError (status_code r))
      else Inr ())"

text \<open>
  The two handlers of both operations: \<open>except requests.exceptions.RequestException as e:
  raise ConnectionError(...) from e\<close> and \<open>except Exception: return []\<close>.
\<close>

definition on_exception :: "exn \<Rightarrow> exn + pydict list" where
  "on_exception e = (if is_RequestException e then Inl (ConnectionError e) else Inr [])"

text \<open>
  The request each operation builds after its checks: \<open>endpoint\<close>, \<open>params\<close> and the
  timeout passed to \<open>requests.get\<close>.
\<close>

definition srchBooks_request :: "string \<Rightarrow> string \<Rightarrow> int \<Rightarrow> int \<Rightarrow> request" where
  "srchBooks_request query api_key page_no page_size =
     \<lparr>endpoint = BASE_URL @ ''/srchBooks'',
      params = [(''authKey'', PStr api_key), (''keyword'', PStr query),
                (''pageNo'', PInt page_no), (''pageSize'', PInt page_size),
                (''format'', PStr ''xml'')],
      timeout = 15\<rparr>"

definition libSrchByBook_request :: "string \<Rightarrow> string \<Rightarrow> string \<Rightarrow> int \<Rightarrow> int \<Rightarrow> request" where
  "libSrchByBook_request isbn13 api_key region_code page_no page_size =
     \<lparr>endpoint = BASE_URL @ ''/libSrchByBook'',
      params = [(''authKey'', PStr api_key), (''isbn'', PStr isbn13),
                (''region'', PStr region_code), (''pageNo'', PInt page_no),
                (''pageSize'', PInt page_size), (''format'', PStr ''xml'')],
      timeout = 20\<rparr>"

definition search_books ::
  "transport \<Rightarrow> etree \<Rightarrow> string \<Rightarrow> string \<Rightarrow> int \<Rightarrow> int \<Rightarrow> request list
     \<Rightarrow> (exn + pydict list) \<times> request list" where
  "search_books get lib query api_key page_no page_size net =
     (if api_key = [] then (Inl (ValueError ''Narou API key is not configured.''), net)
      else
        let req = srchBooks_request query api_key page_no page_size
        in (case get net req of
              Inl e \<Rightarrow> (on_exception e, net @ [req])
            | Inr resp \<Rightarrow>
                (case raise_for_status resp of
                   Inl e \<Rightarrow> (on_exception e, net @ [req])
                 | Inr u \<Rightarrow>
                     (case parse_xml_response lib (body resp) ''docs'' ''doc'' of
                        Inl e \<Rightarrow> (on_exception e, net @ [req])
                      | Inr items \<Rightarrow> (Inr items, net @ [req])))))"

definition find_libraries_for_book ::
  "transport \<Rightarrow> etree \<Rightarrow> string \<Rightarrow> string \<Rightarrow> string \<Rightarrow> int \<Rightarrow> int \<Rightarrow> request list
     \<Rightarrow> (exn + pydict list) \<times> request list" where
  "find_libraries_for_book get lib isbn13 api_key region_code page_no page_size net =
     (if api_key = [] then (Inl (ValueError ''Narou API key is not configured.''), net)
      else if isbn13 = [] then
        (Inl (ValueError ''ISBN13 must be provided to find libraries.''), net)
      else if region_code = [] then
        (Inl (ValueError ''Region code must be provided for library search.''), net)
      else
        let req = libSrchByBook_request isbn13 api_key region_code page_no page_size
        in (case get net req of
              Inl e \<Rightarrow> (on_exception e, net @ [req])
            | Inr resp \<Rightarrow>
                (case raise_for_status resp of
                   Inl e \<Rightarrow> (on_exception e, net @ [req])
                 | Inr u \<Rightarrow>
                     (case parse_xml_response lib (body resp) ''libs'' ''lib'' of
                        Inl e \<Rightarrow> (on_exception e, net @ [req])
                      | Inr items \<Rightarrow> (Inr items, net @ [req])))))"

section \<open>Data frames (\<open>pandas\<close>)\<close>

text \<open>
  A cell of a frame is a string, a number or the missing value. The type of numbers is a
  parameter, as is the reading of a string as a number: \<open>parse s\<close> is the number
  \<open>pd.to_numeric\<close> reads in \<open>s\<close>, and \<open>None\<close> when it reads none, which
  \<open>errors='coerce'\<close> turns into the missing value.
\<close>

datatype 'n cell = Str string | Num 'n | NaN

type_synonym 'n row = "(string \<times> 'n cell) list"

record 'n dataframe =
  columns :: "string list"
  rows :: "'n row list"

definition cell_at :: "'n row \<Rightarrow> string \<Rightarrow> 'n cell" where
  "cell_at r c = (case map_of r c of Some v \<Rightarrow> v | None \<Rightarrow> NaN)"

text \<open>
  \<open>pd.DataFrame(data)\<close> for a list of dictionaries: the columns are the keys in the order of
  their first appearance, and a key that a dictionary lacks gives the missing value.
  \<open>pd.DataFrame()\<close> has no columns and no rows.
\<close>

definition first_seen :: "'a list \<Rightarrow> 'a list" where
  "first_seen ks = fold (\<lambda>k cols. if k \<in> set cols then cols else cols @ [k]) ks []"

definition dict_row :: "string list \<Rightarrow> pydict \<Rightarrow> 'n row" where
  "dict_row cols d = map (\<lambda>c. (c, case map_of d c of Some v \<Rightarrow> Str v | None \<Rightarrow> NaN)) cols"

definition DataFrame :: "pydict list \<Rightarrow> 'n dataframe" where
  "DataFrame data =
     (let cols = first_seen (concat (map (map fst) data))
      in \<lparr>columns = cols, rows = map (dict_row cols) data\<rparr>)"

definition DataFrame_empty :: "'n dataframe" where
  "DataFrame_empty = \<lparr>columns = [], rows = []\<rparr>"

definition empty :: "'n dataframe \<Rightarrow> bool" where
  "empty df = (columns df = [] \<or> rows df = [])"

text \<open>\<open>df[c]\<close> raises \<open>KeyError\<close> for a label that is not a column.\<close>

definition getitem :: "'n dataframe \<Rightarrow> string \<Rightarrow> exn + 'n cell list" where
  "getitem df c =
     (if c \<in> set (columns df) then Inr (map (\<lambda>r. cell_at r c) (rows df))
      else Inl (KeyError c))"

text \<open>\<open>df[c] = series\<close>, for a series with one value for each row of \<open>df\<close>.\<close>

definition setitem :: "'n dataframe \<Rightarrow> string \<Rightarrow> 'n cell list \<Rightarrow> 'n dataframe" where
  "setitem df c series =
     \<lparr>columns = (if c \<in> set (columns df) then columns df else columns df @ [c]),
      rows = map (\<lambda>(r, v). AList.update c v r) (zip (rows df) series)\<rparr>"

text \<open>\<open>pd.to_numeric(series, errors='coerce')\<close>.\<close>

fun coerce :: "(string \<Rightarrow> 'n option) \<Rightarrow> 'n cell \<Rightarrow> 'n cell" where
  "coerce parse (Str s) = (case parse s of Some n \<Rightarrow> Num n | None \<Rightarrow> NaN)"
| "coerce parse (Num n) = Num n"
| "coerce parse NaN = NaN"

definition to_numeric :: "(string \<Rightarrow> 'n option) \<Rightarrow> 'n cell list \<Rightarrow> 'n cell list" where
  "to_numeric parse series = map (coerce parse) series"

text \<open>
  \<open>df.dropna(subset=labels)\<close> keeps the rows that have no missing value under the labels,
  and \<open>df.drop_duplicates(subset=labels)\<close> keeps, of the rows that agree under the labels,
  the first; two missing values agree. Both raise \<open>KeyError\<close> for a label that is not a
  column.
\<close>

definition dropna :: "'n dataframe \<Rightarrow> string list \<Rightarrow> exn + 'n dataframe" where
  "dropna df labels =
     (case filter (\<lambda>c. c \<notin> set (columns df)) labels of
        [] \<Rightarrow> Inr (df\<lparr>rows := filter (\<lambda>r. list_all (\<lambda>c. cell_at r c \<noteq> NaN) labels) (rows df)\<rparr>)
      | c # cs \<Rightarrow> Inl (KeyError c))"

fun keep_first :: "('a \<Rightarrow> 'b) \<Rightarrow> 'b list \<Rightarrow> 'a list \<Rightarrow> 'a list" where
  "keep_first key seen [] = []"
| "keep_first key seen (r # rs) =
     (if key r \<in> set seen then keep_first key seen rs
      else r # keep_first key (key r # seen) rs)"

definition drop_duplicates :: "'n dataframe \<Rightarrow> string list \<Rightarrow> exn + 'n dataframe" where
  "drop_duplicates df labels =
     (case filter (\<lambda>c. c \<notin> set (columns df)) labels of
        [] \<Rightarrow> Inr (df\<lparr>rows := keep_first (\<lambda>r. map (cell_at r) labels) [] (rows df)\<rparr>)
      | c # cs \<Rightarrow> Inl (KeyError c))"

text \<open>\<open>df[labels]\<close> for a list of labels: a new frame with these columns.\<close>

definition select_columns :: "'n dataframe \<Rightarrow> string list \<Rightarrow> exn + 'n dataframe" where
  "select_columns df labels =
     (case filter (\<lambda>c. c \<notin> set (columns df)) labels of
        [] \<Rightarrow> Inr \<lparr>columns = labels, rows = map (\<lambda>r. map (\<lambda>c. (c, cell_at r c)) labels) (rows df)\<rparr>
      | c # cs \<Rightarrow> Inl (KeyError c))"

section \<open>The library search of the application (\<open>app.py\<close>, step 4)\<close>

text \<open>
  The messages of the user interface are written in Korean in the source; here each is a
  constructor. A call of \<open>st.warning\<close>, \<open>st.error\<close> or \<open>st.map\<close> is an entry of a log.
\<close>

datatype message =
    NoLocations
  | MissingColumns
  | NoValidCoordinates
  | RenderFailed exn
  | NoValidLocationData
  | NoLibrariesFound
  | LibrarySearchFailed exn

datatype 'n st_call = StWarning message | StError message | StMap "'n dataframe"

text \<open>
  The statements between \<open>if libraries:\<close> and the test of \<open>empty\<close>: the frame of the
  records, both coordinate columns made numeric, the rows with a missing coordinate
  dropped, then the duplicates of \<open>libCode\<close> dropped. The frame is the one object held in
  \<open>st.session_state.library_locations\<close>; the statements are modelled on its successive
  values.
\<close>

definition library_locations :: "(string \<Rightarrow> 'n option) \<Rightarrow> pydict list \<Rightarrow> exn + 'n dataframe" where
  "library_locations parse libraries =
     (let df = DataFrame libraries
      in case getitem df ''latitude'' of
           Inl e \<Rightarrow> Inl e
         | Inr lat \<Rightarrow>
             (let df1 = setitem df ''latitude'' (to_numeric parse lat)
              in case getitem df1 ''longitude'' of
                   Inl e \<Rightarrow> Inl e
                 | Inr lon \<Rightarrow>
                     (let df2 = setitem df1 ''longitude'' (to_numeric parse lon)
                      in case dropna df2 [''latitude'', ''longitude''] of
                           Inl e \<Rightarrow> Inl e
                         | Inr df3 \<Rightarrow> drop_duplicates df3 [''libCode''])))"

text \<open>
  The body of the \<open>try\<close> of step 4, from the test of the key to the end of the
  \<open>if libraries: ... else: ...\<close>: the two lookups, region \<open>11\<close> then region \<open>31\<close>, with the
  default page number 1 and page size 50, and the frame built from their concatenation.
  It returns the frame left in the session state, the message shown (if any) and the
  requests issued. \<open>NAROU_API_KEY\<close> comes from \<open>os.getenv\<close> and may be \<open>None\<close>; the
  text of the \<open>ValueError\<close> raised for a missing key is Korean and is replaced by the
  name of the variable.
\<close>

definition library_search_try ::
  "transport \<Rightarrow> etree \<Rightarrow> (string \<Rightarrow> 'n option) \<Rightarrow> string option \<Rightarrow> string \<Rightarrow> request list
     \<Rightarrow> (exn + 'n dataframe \<times> message option) \<times> request list" where
  "library_search_try get lib parse NAROU_API_KEY selected_book_isbn net =
     (case NAROU_API_KEY of
        None \<Rightarrow> (Inl (ValueError ''NAROU_API_KEY''), net)
      | Some key \<Rightarrow>
          if key = [] then (Inl (ValueError ''NAROU_API_KEY''), net)
          else
            (case find_libraries_for_book get lib selected_book_isbn key ''11'' 1 50 net of
               (Inl e, net1) \<Rightarrow> (Inl e, net1)
             | (Inr libraries_seoul, net1) \<Rightarrow>
                 (case find_libraries_for_book get lib selected_book_isbn key ''31'' 1 50 net1 of
                    (Inl e, net2) \<Rightarrow> (Inl e, net2)
                  | (Inr libraries_gyeonggi, net2) \<Rightarrow>
                      (let libraries = libraries_seoul @ libraries_gyeonggi
                       in if libraries \<noteq> [] then
                            (case library_locations parse libraries of
                               Inl e \<Rightarrow> (Inl e, net2)
                             | Inr df \<Rightarrow>
                                 if empty df
                                 then (Inr (DataFrame_empty, Some NoValidLocationData), net2)
                                 else (Inr (df, None), net2))
                          else (Inr (DataFrame_empty, Some NoLibrariesFound), net2)))))"

text \<open>
  Step 4 with its handler: \<open>except Exception as e\<close> stores the message and the empty
  frame.
\<close>

definition library_search ::
  "transport \<Rightarrow> etree \<Rightarrow> (string \<Rightarrow> 'n option) \<Rightarrow> string option \<Rightarrow> string \<Rightarrow> request list
     \<Rightarrow> ('n dataframe \<times> message option) \<times> request list" where
  "library_search get lib parse NAROU_API_KEY selected_book_isbn net =
     (case library_search_try get lib parse NAROU_API_KEY selected_book_isbn net of
        (Inl e, net') \<Rightarrow> ((DataFrame_empty, Some (LibrarySearchFailed e)), net')
      | (Inr r, net') \<Rightarrow> (r, net'))"

section \<open>The map (\<open>map_utils.render_map\<close>)\<close>

text \<open>
  Frames are objects: the store is a list of frames and a reference is an index into it.
  \<open>locations_df.copy()\<close> allocates a new frame; the two column assignments and
  \<open>dropna(..., inplace=True)\<close> update the frame that \<open>map_df\<close> refers to. \<open>st.map\<close> is a
  parameter: \<open>st_map df\<close> is the exception the call raises, if it raises one. The
  selection \<open>map_df[['latitude', 'longitude']]\<close> is evaluated inside the \<open>try\<close>.
\<close>

record 'n screen =
  heap :: "'n dataframe list"
  ui :: "'n st_call list"

definition render_map ::
  "(string \<Rightarrow> 'n option) \<Rightarrow> ('n dataframe \<Rightarrow> exn option) \<Rightarrow> nat option \<Rightarrow> 'n screen
     \<Rightarrow> exn + 'n screen" where
  "render_map parse st_map locations_df s =
     (case locations_df of
        None \<Rightarrow> Inr (s\<lparr>ui := ui s @ [StWarning NoLocations]\<rparr>)
      | Some a \<Rightarrow>
          if empty (heap s ! a) then Inr (s\<lparr>ui := ui s @ [StWarning NoLocations]\<rparr>)
          else if \<not> list_all (\<lambda>col. col \<in> set (columns (heap s ! a))) [''latitude'', ''longitude'']
          then Inr (s\<lparr>ui := ui s @ [StError MissingColumns]\<rparr>)
          else
            (let map_df = length (heap s);
                 h0 = heap s @ [heap s ! a]
             in case getitem (h0 ! map_df) ''latitude'' of
                  Inl e \<Rightarrow> Inl e
                | Inr lat \<Rightarrow>
                    (let h1 = h0[map_df := setitem (h0 ! map_df) ''latitude'' (to_numeric parse lat)]
                     in case getitem (h1 ! map_df) ''longitude'' of
                          Inl e \<Rightarrow> Inl e
                        | Inr lon \<Rightarrow>
                            (let h2 = h1[map_df :=
                                        setitem (h1 ! map_df) ''longitude'' (to_numeric parse lon)]
                             in case dropna (h2 ! map_df) [''latitude'', ''longitude''] of
                                  Inl e \<Rightarrow> Inl e
                                | Inr kept \<Rightarrow>
                                    (let h3 = h2[map_df := kept]
                                     in if empty (h3 ! map_df)
                                        then Inr \<lparr>heap = h3, ui = ui s @ [StWarning NoValidCoordinates]\<rparr>
                                        else
                                          (case select_columns (h3 ! map_df) [''latitude'', ''longitude''] of
                                             Inl e \<Rightarrow> Inr \<lparr>heap = h3, ui = ui s @ [StError (RenderFailed e)]\<rparr>
                                           | Inr shown \<Rightarrow>
                                               (case st_map shown of
                                                  None \<Rightarrow> Inr \<lparr>heap = h3, ui = ui s @ [StMap shown]\<rparr>
                                                | Some e \<Rightarrow>
                                                    Inr \<lparr>heap = h3,
                                                         ui = ui s @ [StMap shown, StError (RenderFailed e)]\<rparr>)))))))"

section \<open>The coordinate filter, row by row\<close>

text \<open>
  Both \<open>app.py\<close> and \<open>render_map\<close> run the same three statements on a frame: the two
  column assignments and \<open>dropna\<close>. \<open>numeric_row\<close> is a row after the two assignments,
  \<open>located\<close> holds of a row that \<open>dropna\<close> then keeps, and \<open>numeric_frame\<close> is the frame
  after the three statements. \<open>has_coordinates\<close> is \<open>located\<close> read on a record: both keys
  are present and both values read as numbers.
\<close>

definition numeric_row :: "(string \<Rightarrow> 'n option) \<Rightarrow> 'n row \<Rightarrow> 'n row" where
  "numeric_row parse r =
     AList.update ''longitude'' (coerce parse (cell_at r ''longitude''))
       (AList.update ''latitude'' (coerce parse (cell_at r ''latitude'')) r)"

definition located :: "(string \<Rightarrow> 'n option) \<Rightarrow> 'n row \<Rightarrow> bool" where
  "located parse r =
     (coerce parse (cell_at r ''latitude'') \<noteq> NaN \<and> coerce parse (cell_at r ''longitude'') \<noteq> NaN)"

definition numeric_frame :: "(string \<Rightarrow> 'n option) \<Rightarrow> 'n dataframe \<Rightarrow> 'n dataframe" where
  "numeric_frame parse df =
     \<lparr>columns = columns df, rows = map (numeric_row parse) (filter (located parse) (rows df))\<rparr>"

definition has_coordinates :: "(string \<Rightarrow> 'n option) \<Rightarrow> pydict \<Rightarrow> bool" where
  "has_coordinates parse d =
     (case (map_of d ''latitude'', map_of d ''longitude'') of
        (Some u, Some v) \<Rightarrow> parse u \<noteq> None \<and> parse v \<noteq> None
      | _ \<Rightarrow> False)"

section \<open>Test doubles\<close>

text \<open>
  Concrete values for the parameters, used where a statement is evaluated on an input:
  a parser that knows the documents of a table and raises \<open>ParseError\<close> for every other
  string, a path evaluator that always raises, a transport that answers every request
  with one response or raises one exception, a transport that answers by region, a
  reader of the numbers of a table (a number is written as its digits and the count of
  digits after the point), and an \<open>st.map\<close> that returns.
\<close>

definition fake_etree :: "(string \<times> element) list \<Rightarrow> etree" where
  "fake_etree docs =
     \<lparr>fromstring = (\<lambda>s. case map_of docs s of Some e \<Rightarrow> Inr e | None \<Rightarrow> Inl ParseError),
      elementpath_find = (\<lambda>e p. Inl SyntaxError),
      elementpath_findall = (\<lambda>e p. Inl SyntaxError)\<rparr>"

definition answering :: "response \<Rightarrow> transport" where
  "answering r = (\<lambda>net req. Inr r)"

definition raising :: "exn \<Rightarrow> transport" where
  "raising e = (\<lambda>net req. Inl e)"

definition answering_by_region :: "(string \<times> response) list \<Rightarrow> transport" where
  "answering_by_region table =
     (\<lambda>net req.
        case map_of (params req) ''region'' of
          Some (PStr region) \<Rightarrow>
            (case map_of table region of
               Some r \<Rightarrow> Inr r
             | None \<Rightarrow> Inl (RequestException ''unreachable''))
        | _ \<Rightarrow> Inl (RequestException ''unreachable''))"

definition fake_parse :: "(string \<times> int \<times> nat) list \<Rightarrow> string \<Rightarrow> (int \<times> nat) option" where
  "fake_parse table s = map_of table s"

definition coordinates :: "(string \<times> int \<times> nat) list" where
  "coordinates = [(''37.5'', (375, 1)), (''127.0'', (1270, 1)), (''126.9'', (1269, 1))]"

definition st_map_ok :: "'n dataframe \<Rightarrow> exn option" where
  "st_map_ok df = None"

text \<open>Elements without and with text, and the documents used below.\<close>

definition leaf :: "string \<Rightarrow> string \<Rightarrow> element" where
  "leaf t x = Element t (Some x) []"

definition node :: "string \<Rightarrow> element list \<Rightarrow> element" where
  "node t cs = Element t None cs"

definition books_src :: string where
  "books_src = ''<response><numFound>3</numFound><docs><doc><bookname>  Python  </bookname><isbn13>9788966261840</isbn13></doc><doc> </doc><doc><bookname>old</bookname><authors/><bookname>new</bookname></doc></docs></response>''"

definition books_doc :: element where
  "books_doc =
     node ''response''
       [leaf ''numFound'' ''3'',
        node ''docs''
          [node ''doc'' [leaf ''bookname'' ''  Python  '', leaf ''isbn13'' ''9788966261840''],
           Element ''doc'' (Some '' '') [],
           node ''doc'' [leaf ''bookname'' ''old'', node ''authors'' [], leaf ''bookname'' ''new'']]]"

definition nested_src :: string where
  "nested_src = ''<response><result><docs><doc><bookname>Python</bookname></doc></docs></result></response>''"

definition nested_doc :: element where
  "nested_doc =
     node ''response''
       [node ''result''
          [node ''docs'' [node ''doc'' [leaf ''bookname'' ''Python'']]]]"

definition bare_src :: string where
  "bare_src = ''<response><doc><bookname>A</bookname></doc><doc><bookname>B</bookname></doc><doc><bookname>C</bookname></doc></response>''"

definition bare_doc :: element where
  "bare_doc =
     node ''response''
       [node ''doc'' [leaf ''bookname'' ''A''],
        node ''doc'' [leaf ''bookname'' ''B''],
        node ''doc'' [leaf ''bookname'' ''C'']]"

definition repeated_src :: string where
  "repeated_src = ''<response><libs><lib><libCode>111017</libCode><libName>A</libName></lib><lib><libCode>111017</libCode><libName>B</libName></lib></libs></response>''"

definition repeated_doc :: element where
  "repeated_doc =
     node ''response''
       [node ''libs''
          [node ''lib'' [leaf ''libCode'' ''111017'', leaf ''libName'' ''A''],
           node ''lib'' [leaf ''libCode'' ''111017'', leaf ''libName'' ''B'']]]"

definition seoul_src :: string where
  "seoul_src = ''<response><libs><lib><libCode>111017</libCode><libName>A (11)</libName><latitude>37.5</latitude><longitude>127.0</longitude></lib><lib><libCode>111004</libCode><libName>B</libName><latitude>37.5</latitude><longitude>126.9</longitude></lib></libs></response>''"

definition seoul_doc :: element where
  "seoul_doc =
     node ''response''
       [node ''libs''
          [node ''lib'' [leaf ''libCode'' ''111017'', leaf ''libName'' ''A (11)'',
                         leaf ''latitude'' ''37.5'', leaf ''longitude'' ''127.0''],
           node ''lib'' [leaf ''libCode'' ''111004'', leaf ''libName'' ''B'',
                         leaf ''latitude'' ''37.5'', leaf ''longitude'' ''126.9'']]]"

definition gyeonggi_src :: string where
  "gyeonggi_src = ''<response><libs><lib><libCode>141001</libCode><libName>C</libName><latitude>invalid</latitude><longitude>127.0</longitude></lib><lib><libCode>111017</libCode><libName>A (31)</libName><latitude>37.5</latitude><longitude>127.0</longitude></lib></libs></response>''"

definition gyeonggi_doc :: element where
  "gyeonggi_doc =
     node ''response''
       [node ''libs''
          [node ''lib'' [leaf ''libCode'' ''141001'', leaf ''libName'' ''C'',
                         leaf ''latitude'' ''invalid'', leaf ''longitude'' ''127.0''],
           node ''lib'' [leaf ''libCode'' ''111017'', leaf ''libName'' ''A (31)'',
                         leaf ''latitude'' ''37.5'', leaf ''longitude'' ''127.0'']]]"

text \<open>
  The library code that the document gives an item (the stripped text of its last
  \<open>libCode\<close> child), and the items of a holdings response that yield a record: the \<open>lib\<close>
  children, with at least one child of their own, of the \<open>libs\<close> child of the top-level
  element, or of the top-level element when it has no \<open>libs\<close> child.
\<close>

definition item_code :: "element \<Rightarrow> string option" where
  "item_code item =
     map_option text_content (List.find (\<lambda>c. tag c = ''libCode'') (rev (children item)))"

definition lib_items :: "element \<Rightarrow> element list" where
  "lib_items root =
     filter (\<lambda>e. children e \<noteq> [])
       (filter (\<lambda>c. tag c = ''lib'')
          (children (results_element root (List.find (\<lambda>c. tag c = ''libs'') (children root)))))"

text \<open>Records and frames used below.\<close>

definition two_records :: "pydict list" where
  "two_records =
     [[(''latitude'', ''37.5''), (''longitude'', ''127.0'')],
      [(''latitude'', ''invalid''), (''longitude'', ''127.0'')]]"

definition libraries_seoul :: "pydict list" where
  "libraries_seoul =
     [[(''libCode'', ''111017''), (''libName'', ''A (11)''), (''latitude'', ''37.5''),
       (''longitude'', ''127.0'')],
      [(''libCode'', ''111004''), (''libName'', ''B''), (''latitude'', ''37.5''),
       (''longitude'', ''126.9'')]]"

definition libraries_gyeonggi :: "pydict list" where
  "libraries_gyeonggi =
     [[(''libCode'', ''141001''), (''libName'', ''C''), (''latitude'', ''invalid''),
       (''longitude'', ''127.0'')],
      [(''libCode'', ''111017''), (''libName'', ''A (31)''), (''latitude'', ''37.5''),
       (''longitude'', ''127.0'')]]"

definition unlocated_seoul :: "pydict list" where
  "unlocated_seoul =
     [[(''libCode'', ''111017''), (''latitude'', []), (''longitude'', ''127.0'')],
      [(''libCode'', ''111004''), (''latitude'', ''37.5''), (''longitude'', ''126.9'')]]"

definition unlocated_gyeonggi :: "pydict list" where
  "unlocated_gyeonggi =
     [[(''libCode'', ''111017''), (''latitude'', []), (''longitude'', ''127.0'')]]"

definition combined_frame :: "(int \<times> nat) dataframe" where
  "combined_frame =
     \<lparr>columns = [''libCode'', ''libName'', ''latitude'', ''longitude''],
      rows = [[(''libCode'', Str ''111017''), (''libName'', Str ''A (11)''),
               (''latitude'', Num (375, 1)), (''longitude'', Num (1270, 1))],
              [(''libCode'', Str ''111004''), (''libName'', Str ''B''),
               (''latitude'', Num (375, 1)), (''longitude'', Num (1269, 1))]]\<rparr>"

definition shown_frame :: "(int \<times> nat) dataframe" where
  "shown_frame =
     \<lparr>columns = [''latitude'', ''longitude''],
      rows = [[(''latitude'', Num (375, 1)), (''longitude'', Num (1270, 1))]]\<rparr>"

text \<open>
  A service that answers the lookup for region \<open>11\<close> with one document and the lookup for
  region \<open>31\<close> with another, and the parser that knows both documents.
\<close>

definition two_regions :: transport where
  "two_regions =
     answering_by_region
       [(''11'', \<lparr>status_code = 200, body = seoul_src\<rparr>),
        (''31'', \<lparr>status_code = 200, body = gyeonggi_src\<rparr>)]"

definition two_documents :: etree where
  "two_documents = fake_etree [(seoul_src, seoul_doc), (gyeonggi_src, gyeonggi_doc)]"

section \<open>The specification's wording, where it differs from the code\<close>

text \<open>
  The specification lets the normalizer look for the group element "anywhere in the
  document": \<open>elements\<close> lists an element and its descendants in document order, and
  \<open>spec_group\<close> is the first of them with the group name, or the top-level element when
  there is none.
\<close>

fun elements :: "element \<Rightarrow> element list" where
  "elements (Element t x cs) = Element t x cs # concat (map elements cs)"

definition spec_group :: "element \<Rightarrow> string \<Rightarrow> element" where
  "spec_group root name =
     (case List.find (\<lambda>e. tag e = name) (elements root) of None \<Rightarrow> root | Some g \<Rightarrow> g)"

text \<open>
  The specification omits an item with "no immediate children having extractable text":
  \<open>has_extractable_text\<close> holds of an item when one of its immediate children has text.
\<close>

definition has_extractable_text :: "element \<Rightarrow> bool" where
  "has_extractable_text item =
     list_ex (\<lambda>c. etext c \<noteq> None \<and> etext c \<noteq> Some []) (children item)"

section \<open>Properties of the normalizer\<close>

lemma find_append:
  "List.find P (xs @ ys) = (case List.find P xs of None \<Rightarrow> List.find P ys | Some x \<Rightarrow> Some x)"
  by (induction xs) auto

lemma item_fields_nonempty: "cs \<noteq> [] \<or> acc \<noteq> [] \<Longrightarrow> item_fields cs acc \<noteq> []"
  by (induction cs arbitrary: acc) auto

lemma item_fields_empty_iff: "item_fields cs [] = [] \<longleftrightarrow> cs = []"
  using item_fields_nonempty [of cs "[]"] by (cases cs) auto

lemma collect_items_eq:
  "collect_items es items =
     items @ map (\<lambda>e. item_fields (children e) []) (filter (\<lambda>e. children e \<noteq> []) es)"
  by (induction es arbitrary: items) (simp_all add: Let_def item_fields_empty_iff)

lemma map_of_item_fields:
  "map_of (item_fields cs acc) t =
     (case List.find (\<lambda>c. tag c = t) (rev cs) of
        None \<Rightarrow> map_of acc t
      | Some c \<Rightarrow> Some (text_content c))"
proof (induction cs arbitrary: acc)
  case Nil
  then show ?case by simp
next
  case (Cons c cs)
  show ?case
    by (simp add: Cons.IH update_conv' find_append split: option.splits)
qed

lemma text_content_eq: "text_content c = (case etext c of None \<Rightarrow> [] | Some x \<Rightarrow> strip x)"
  by (simp add: text_content_def strip_def split: option.splits)

text \<open>
  C2. A string that the parser rejects gives the empty list: the normalizer returns, and
  returns no record, whatever the group name and the item name are.
\<close>

theorem malformed_document_gives_empty_list:
  "fromstring lib xml_string = Inl e \<Longrightarrow>
     parse_xml_response lib xml_string result_tag item_tag = Inr []"
  by (simp add: parse_xml_response_def parse_xml_try_def)

theorem malformed_document_gives_empty_list_witness:
  "fromstring (fake_etree []) ''<docs><doc><bookname>Python'' = Inl ParseError
   \<and> parse_xml_response (fake_etree []) ''<docs><doc><bookname>Python'' ''docs'' ''doc'' = Inr []"
  using malformed_document_gives_empty_list
    [of "fake_etree []" "''<docs><doc><bookname>Python''" ParseError "''docs''" "''doc''"]
  by (simp add: fake_etree_def)

lemma plain_docs:
  "plain_name ''docs''" "plain_name ''doc''" "plain_name ''libs''" "plain_name ''lib''"
  by (simp_all add: plain_name_def pathchar_def isspace_def)

lemma children_in_elements: "set (children e) \<subseteq> set (elements e)"
proof (cases e)
  case (Element t x cs)
  have "c \<in> set (elements c)" for c
    by (cases c) simp
  then show ?thesis using Element by auto
qed

text \<open>
  C5. As stated the claim fails: an item whose only child has no text is not omitted. The
  record of the item is the dictionary with that child's tag and the empty string, which
  is not empty.
\<close>

theorem item_without_text_is_kept:
  "\<not> has_extractable_text (node ''doc'' [node ''bookname'' []])
   \<and> parse_xml_response
         (fake_etree [(''<docs><doc><bookname/></doc></docs>'',
                       node ''docs'' [node ''doc'' [node ''bookname'' []]])])
         ''<docs><doc><bookname/></doc></docs>'' ''docs'' ''doc''
       = Inr [[(''bookname'', [])]]"
  by (simp add: has_extractable_text_def node_def parse_xml_response_def parse_xml_try_def
      fake_etree_def et_find_def et_findall_def plain_name_def pathchar_def isspace_def
      results_element_def text_content_def)

text \<open>
  C5, amended. For a document that parses, with \<open>item_elements\<close> the item elements found
  under the group, the normalizer returns one record for each item element that has at
  least one child, in document order; an item element without children is omitted. A
  record sends a tag to the stripped text of the last child with that tag, and the text
  of a child without text counts as the empty string.
\<close>

theorem one_record_per_item_with_children:
  assumes "fromstring lib xml_string = Inr root"
      and "et_find lib root result_tag = Inr found"
      and "et_findall lib (results_element root found) item_tag = Inr item_elements"
  shows "parse_xml_response lib xml_string result_tag item_tag =
           Inr (map (\<lambda>e. item_fields (children e) [])
                  (filter (\<lambda>e. children e \<noteq> []) item_elements))
       \<and> (\<forall>cs t. map_of (item_fields cs []) t =
                    map_option text_content (List.find (\<lambda>c. tag c = t) (rev cs)))
       \<and> (\<forall>c. text_content c = (case etext c of None \<Rightarrow> [] | Some x \<Rightarrow> strip x))"
  using assms
  by (simp add: parse_xml_response_def parse_xml_try_def collect_items_eq map_of_item_fields
      text_content_eq split: option.splits)

theorem one_record_per_item_with_children_witness:
  "fromstring (fake_etree [(books_src, books_doc)]) books_src = Inr books_doc
   \<and> et_find (fake_etree [(books_src, books_doc)]) books_doc ''docs''
       = Inr (Some (children books_doc ! 1))
   \<and> et_findall (fake_etree [(books_src, books_doc)]) (children books_doc ! 1) ''doc''
       = Inr (children (children books_doc ! 1))
   \<and> parse_xml_response (fake_etree [(books_src, books_doc)]) books_src ''docs'' ''doc''
       = Inr [[(''bookname'', ''Python''), (''isbn13'', ''9788966261840'')],
              [(''bookname'', ''new''), (''authors'', [])]]"
proof -
  let ?lib = "fake_etree [(books_src, books_doc)]"
  let ?docs = "children books_doc ! 1"
  have 1: "fromstring ?lib books_src = Inr books_doc"
    by (simp add: fake_etree_def)
  have 2: "et_find ?lib books_doc ''docs'' = Inr (Some ?docs)"
    by (simp add: et_find_def plain_docs books_doc_def node_def leaf_def)
  have 3: "et_findall ?lib (results_element books_doc (Some ?docs)) ''doc'' = Inr (children ?docs)"
    by (simp add: et_findall_def plain_docs books_doc_def node_def leaf_def results_element_def)
  have 4: "map (\<lambda>e. item_fields (children e) []) (filter (\<lambda>e. children e \<noteq> []) (children ?docs))
      = [[(''bookname'', ''Python''), (''isbn13'', ''9788966261840'')],
         [(''bookname'', ''new''), (''authors'', [])]]"
    by (simp add: books_doc_def node_def leaf_def text_content_def strip_def isspace_def)
  from one_record_per_item_with_children [OF 1 2 3] 1 2 3 4 show ?thesis
    by (simp add: results_element_def)
qed

text \<open>
  C6. As stated the claim fails: the group element is sought among the immediate
  children of the top-level element only. In a document whose \<open>docs\<close> element lies one
  level deeper, the first \<open>docs\<close> element of the document holds one item, and the
  normalizer, falling back to the top-level element, returns no record.
\<close>

theorem nested_group_is_not_found:
  "collect_items (filter (\<lambda>c. tag c = ''doc'') (children (spec_group nested_doc ''docs''))) []
     = [[(''bookname'', ''Python'')]]
   \<and> parse_xml_response (fake_etree [(nested_src, nested_doc)]) nested_src ''docs'' ''doc''
     = Inr []"
  by (simp add: spec_group_def nested_doc_def node_def leaf_def text_content_def strip_def
      isspace_def parse_xml_response_def parse_xml_try_def fake_etree_def et_find_def
      et_findall_def plain_docs results_element_def)

text \<open>
  C6, amended. For a document that parses and plain group and item names, the group is
  the first immediate child of the top-level element with the group name, and the
  top-level element itself when no immediate child has that name; the records are
  collected from the immediate children of the group with the item name. When no
  element of the document has the group name, the items are those directly under the
  top-level element, and if each of them has a child there is one record per item.
\<close>

theorem group_is_sought_among_children_of_root:
  assumes "fromstring lib xml_string = Inr root"
      and "plain_name result_tag" and "plain_name item_tag"
  shows "parse_xml_response lib xml_string result_tag item_tag =
           Inr (collect_items
                  (filter (\<lambda>c. tag c = item_tag)
                     (children (case List.find (\<lambda>c. tag c = result_tag) (children root) of
                                  None \<Rightarrow> root | Some g \<Rightarrow> g))) [])
       \<and> (list_all (\<lambda>e. tag e \<noteq> result_tag) (elements root) \<longrightarrow>
            parse_xml_response lib xml_string result_tag item_tag =
              Inr (collect_items (filter (\<lambda>c. tag c = item_tag) (children root)) []))
       \<and> (list_all (\<lambda>e. tag e \<noteq> result_tag) (elements root)
            \<and> list_all (\<lambda>c. tag c = item_tag \<longrightarrow> children c \<noteq> []) (children root) \<longrightarrow>
            (\<exists>records. parse_xml_response lib xml_string result_tag item_tag = Inr records
               \<and> length records = length (filter (\<lambda>c. tag c = item_tag) (children root))))"
proof -
  have main: "parse_xml_response lib xml_string result_tag item_tag =
           Inr (collect_items
                  (filter (\<lambda>c. tag c = item_tag)
                     (children (case List.find (\<lambda>c. tag c = result_tag) (children root) of
                                  None \<Rightarrow> root | Some g \<Rightarrow> g))) [])"
    using assms
    by (simp add: parse_xml_response_def parse_xml_try_def et_find_def et_findall_def
        results_element_def)
  have absent: "List.find (\<lambda>c. tag c = result_tag) (children root) = None"
    if "list_all (\<lambda>e. tag e \<noteq> result_tag) (elements root)"
    using that children_in_elements [of root]
    by (auto simp add: find_None_iff list_all_iff)
  have fallback: "parse_xml_response lib xml_string result_tag item_tag =
              Inr (collect_items (filter (\<lambda>c. tag c = item_tag) (children root)) [])"
    if "list_all (\<lambda>e. tag e \<noteq> result_tag) (elements root)"
    using main absent [OF that] by simp
  have count: "length (collect_items (filter (\<lambda>c. tag c = item_tag) (children root)) [])
      = length (filter (\<lambda>c. tag c = item_tag) (children root))"
    if "list_all (\<lambda>c. tag c = item_tag \<longrightarrow> children c \<noteq> []) (children root)"
  proof -
    have "filter (\<lambda>e. children e \<noteq> []) (filter (\<lambda>c. tag c = item_tag) (children root))
        = filter (\<lambda>c. tag c = item_tag) (children root)"
      using that by (auto simp add: list_all_iff intro: filter_cong)
    then show ?thesis by (simp add: collect_items_eq)
  qed
  show ?thesis
    using main fallback count by auto
qed

theorem group_is_sought_among_children_of_root_witness:
  "fromstring (fake_etree [(bare_src, bare_doc)]) bare_src = Inr bare_doc
   \<and> plain_name ''docs'' \<and> plain_name ''doc''
   \<and> list_all (\<lambda>e. tag e \<noteq> ''docs'') (elements bare_doc)
   \<and> list_all (\<lambda>c. tag c = ''doc'' \<longrightarrow> children c \<noteq> []) (children bare_doc)
   \<and> parse_xml_response (fake_etree [(bare_src, bare_doc)]) bare_src ''docs'' ''doc''
       = Inr [[(''bookname'', ''A'')], [(''bookname'', ''B'')], [(''bookname'', ''C'')]]"
proof -
  have 1: "fromstring (fake_etree [(bare_src, bare_doc)]) bare_src = Inr bare_doc"
    by (simp add: fake_etree_def)
  have 2: "list_all (\<lambda>e. tag e \<noteq> ''docs'') (elements bare_doc)"
    by (simp add: bare_doc_def node_def leaf_def)
  have 3: "list_all (\<lambda>c. tag c = ''doc'' \<longrightarrow> children c \<noteq> []) (children bare_doc)"
    by (simp add: bare_doc_def node_def leaf_def)
  have 4: "collect_items (filter (\<lambda>c. tag c = ''doc'') (children bare_doc)) []
      = [[(''bookname'', ''A'')], [(''bookname'', ''B'')], [(''bookname'', ''C'')]]"
    by (simp add: bare_doc_def node_def leaf_def text_content_def strip_def isspace_def)
  from group_is_sought_among_children_of_root [OF 1 plain_docs(1) plain_docs(2)] 2
  have "parse_xml_response (fake_etree [(bare_src, bare_doc)]) bare_src ''docs'' ''doc''
      = Inr (collect_items (filter (\<lambda>c. tag c = ''doc'') (children bare_doc)) [])"
    by blast
  with 1 2 3 4 show ?thesis
    by (simp add: plain_docs)
qed

section \<open>Properties of the catalog client\<close>

text \<open>
  C3. With an empty credential both operations raise \<open>ValueError\<close>, and so does the
  holdings lookup with an empty identifier or an empty region code; the list of issued
  requests is returned as it was, so no request was issued.
\<close>

theorem missing_configuration_raises_before_any_request:
  "(api_key = [] \<longrightarrow>
      (\<exists>m. search_books get lib query api_key page_no page_size net = (Inl (ValueError m), net)))
   \<and> (key = [] \<or> isbn = [] \<or> region_code = [] \<longrightarrow>
      (\<exists>m. find_libraries_for_book get lib isbn key region_code page_no page_size net
             = (Inl (ValueError m), net)))"
  by (auto simp add: search_books_def find_libraries_for_book_def)

theorem missing_configuration_raises_before_any_request_witness:
  "(\<exists>m. search_books (answering \<lparr>status_code = 200, body = ''<docs/>''\<rparr>) (fake_etree [])
           ''python'' [] 1 20 [] = (Inl (ValueError m), []))
   \<and> (\<exists>m. find_libraries_for_book (answering \<lparr>status_code = 200, body = ''<docs/>''\<rparr>)
           (fake_etree []) [] ''KEY'' ''11'' 1 20 [] = (Inl (ValueError m), []))
   \<and> (\<exists>m. find_libraries_for_book (answering \<lparr>status_code = 200, body = ''<libs/>''\<rparr>)
           (fake_etree []) ''9788966261840'' ''KEY'' [] 1 50 [] = (Inl (ValueError m), []))"
  using missing_configuration_raises_before_any_request
    [where api_key = "[]" and key = "''KEY''" and isbn = "[]" and region_code = "''11''"
       and get = "answering \<lparr>status_code = 200, body = ''<docs/>''\<rparr>"
       and lib = "fake_etree []" and query = "''python''" and page_no = 1 and page_size = 20
       and net = "[]"]
    missing_configuration_raises_before_any_request
    [where api_key = "[]" and key = "''KEY''" and isbn = "''9788966261840''"
       and region_code = "[]"
       and get = "answering \<lparr>status_code = 200, body = ''<libs/>''\<rparr>"
       and lib = "fake_etree []" and query = "''python''" and page_no = 1 and page_size = 50
       and net = "[]"]
  by simp

lemma parse_xml_response_returns:
  "\<exists>items. parse_xml_response lib xml_string result_tag item_tag = Inr items"
  by (simp add: parse_xml_response_def split: prod.splits)

lemma parse_books:
  "parse_xml_response (fake_etree [(books_src, books_doc)]) books_src ''docs'' ''doc''
     = Inr [[(''bookname'', ''Python''), (''isbn13'', ''9788966261840'')],
            [(''bookname'', ''new''), (''authors'', [])]]"
  by (simp add: parse_xml_response_def parse_xml_try_def fake_etree_def et_find_def
      et_findall_def plain_docs results_element_def books_doc_def node_def leaf_def
      text_content_def strip_def isspace_def)

text \<open>
  C1. As stated the claim fails: \<open>raise_for_status\<close> raises for the statuses from 400 to
  599 only, so a response with another status outside 200 to 299, such as 304, is handed
  to the normalizer and the operation returns a list.
\<close>

theorem redirect_status_returns_a_list:
  "\<not> (200 \<le> (304::int) \<and> (304::int) < 300)
   \<and> search_books (answering \<lparr>status_code = 304, body = []\<rparr>) (fake_etree [])
         ''python'' ''KEY'' 1 20 []
       = (Inr [], [srchBooks_request ''python'' ''KEY'' 1 20])
   \<and> find_libraries_for_book (answering \<lparr>status_code = 304, body = []\<rparr>) (fake_etree [])
         ''9788966261840'' ''KEY'' ''11'' 1 50 []
       = (Inr [], [libSrchByBook_request ''9788966261840'' ''KEY'' ''11'' 1 50])"
  by (simp add: search_books_def find_libraries_for_book_def answering_def
      raise_for_status_def parse_xml_response_def parse_xml_try_def fake_etree_def Let_def)

text \<open>
  C1, amended. When \<open>requests.get\<close> raises a \<open>RequestException\<close>, or the response has a
  status from 400 to 599, both operations raise \<open>ConnectionError\<close> from that exception
  (the \<open>HTTPError\<close> of the status in the second case); no list is returned. A response
  with any other status is a success: the operation returns the list that the normalizer
  makes of its body.
\<close>

theorem request_failure_raises_ConnectionError:
  assumes "api_key \<noteq> []" and "isbn \<noteq> []" and "region_code \<noteq> []"
  shows "(get net (srchBooks_request query api_key page_no page_size) = Inl e
            \<and> is_RequestException e \<longrightarrow>
          search_books get lib query api_key page_no page_size net
            = (Inl (ConnectionError e), net @ [srchBooks_request query api_key page_no page_size]))
       \<and> (get net (srchBooks_request query api_key page_no page_size) = Inr resp
            \<and> 400 \<le> status_code resp \<and> status_code resp < 600 \<longrightarrow>
          search_books get lib query api_key page_no page_size net
            = (Inl (ConnectionError (HTTPError (status_code resp))),
               net @ [srchBooks_request query api_key page_no page_size]))
       \<and> (get net (libSrchByBook_request isbn api_key region_code page_no page_size) = Inl e
            \<and> is_RequestException e \<longrightarrow>
          find_libraries_for_book get lib isbn api_key region_code page_no page_size net
            = (Inl (ConnectionError e),
               net @ [libSrchByBook_request isbn api_key region_code page_no page_size]))
       \<and> (get net (libSrchByBook_request isbn api_key region_code page_no page_size) = Inr resp
            \<and> 400 \<le> status_code resp \<and> status_code resp < 600 \<longrightarrow>
          find_libraries_for_book get lib isbn api_key region_code page_no page_size net
            = (Inl (ConnectionError (HTTPError (status_code resp))),
               net @ [libSrchByBook_request isbn api_key region_code page_no page_size]))
       \<and> (get net (srchBooks_request query api_key page_no page_size) = Inr resp
            \<and> \<not> (400 \<le> status_code resp \<and> status_code resp < 600) \<longrightarrow>
          (\<exists>items. parse_xml_response lib (body resp) ''docs'' ''doc'' = Inr items
             \<and> search_books get lib query api_key page_no page_size net
                 = (Inr items, net @ [srchBooks_request query api_key page_no page_size])))
       \<and> (get net (libSrchByBook_request isbn api_key region_code page_no page_size) = Inr resp
            \<and> \<not> (400 \<le> status_code resp \<and> status_code resp < 600) \<longrightarrow>
          (\<exists>items. parse_xml_response lib (body resp) ''libs'' ''lib'' = Inr items
             \<and> find_libraries_for_book get lib isbn api_key region_code page_no page_size net
                 = (Inr items,
                    net @ [libSrchByBook_request isbn api_key region_code page_no page_size])))"
proof -
  have raises: "(get net (srchBooks_request query api_key page_no page_size) = Inl e
            \<and> is_RequestException e \<longrightarrow>
          search_books get lib query api_key page_no page_size net
            = (Inl (ConnectionError e), net @ [srchBooks_request query api_key page_no page_size]))
       \<and> (get net (srchBooks_request query api_key page_no page_size) = Inr resp
            \<and> 400 \<le> status_code resp \<and> status_code resp < 600 \<longrightarrow>
          search_books get lib query api_key page_no page_size net
            = (Inl (ConnectionError (HTTPError (status_code resp))),
               net @ [srchBooks_request query api_key page_no page_size]))
       \<and> (get net (libSrchByBook_request isbn api_key region_code page_no page_size) = Inl e
            \<and> is_RequestException e \<longrightarrow>
          find_libraries_for_book get lib isbn api_key region_code page_no page_size net
            = (Inl (ConnectionError e),
               net @ [libSrchByBook_request isbn api_key region_code page_no page_size]))
       \<and> (get net (libSrchByBook_request isbn api_key region_code page_no page_size) = Inr resp
            \<and> 400 \<le> status_code resp \<and> status_code resp < 600 \<longrightarrow>
          find_libraries_for_book get lib isbn api_key region_code page_no page_size net
            = (Inl (ConnectionError (HTTPError (status_code resp))),
               net @ [libSrchByBook_request isbn api_key region_code page_no page_size]))"
    using assms
    by (simp add: search_books_def find_libraries_for_book_def on_exception_def Let_def
        raise_for_status_def)
  have books: "\<exists>items. parse_xml_response lib (body resp) ''docs'' ''doc'' = Inr items
             \<and> search_books get lib query api_key page_no page_size net
                 = (Inr items, net @ [srchBooks_request query api_key page_no page_size])"
    if "get net (srchBooks_request query api_key page_no page_size) = Inr resp"
      and "\<not> (400 \<le> status_code resp \<and> status_code resp < 600)"
  proof -
    obtain items where "parse_xml_response lib (body resp) ''docs'' ''doc'' = Inr items"
      using parse_xml_response_returns by blast
    with that assms(1) show ?thesis
      by (auto simp add: search_books_def Let_def raise_for_status_def)
  qed
  have libs: "\<exists>items. parse_xml_response lib (body resp) ''libs'' ''lib'' = Inr items
             \<and> find_libraries_for_book get lib isbn api_key region_code page_no page_size net
                 = (Inr items,
                    net @ [libSrchByBook_request isbn api_key region_code page_no page_size])"
    if "get net (libSrchByBook_request isbn api_key region_code page_no page_size) = Inr resp"
      and "\<not> (400 \<le> status_code resp \<and> status_code resp < 600)"
  proof -
    obtain items where "parse_xml_response lib (body resp) ''libs'' ''lib'' = Inr items"
      using parse_xml_response_returns by blast
    with that assms show ?thesis
      by (auto simp add: find_libraries_for_book_def Let_def raise_for_status_def)
  qed
  from raises books libs show ?thesis by blast
qed

theorem request_failure_raises_ConnectionError_witness:
  "is_RequestException (RequestException ''connection refused'')
   \<and> search_books (raising (RequestException ''connection refused'')) (fake_etree [])
         ''python'' ''KEY'' 1 20 []
       = (Inl (ConnectionError (RequestException ''connection refused'')),
          [srchBooks_request ''python'' ''KEY'' 1 20])
   \<and> find_libraries_for_book (answering \<lparr>status_code = 503, body = ''<libs/>''\<rparr>)
         (fake_etree [(''<libs/>'', node ''libs'' [])]) ''9788966261840'' ''KEY'' ''11'' 1 50 []
       = (Inl (ConnectionError (HTTPError 503)),
          [libSrchByBook_request ''9788966261840'' ''KEY'' ''11'' 1 50])
   \<and> \<not> (400 \<le> (304::int) \<and> (304::int) < 600)
   \<and> parse_xml_response (fake_etree [(books_src, books_doc)]) books_src ''docs'' ''doc''
       = Inr [[(''bookname'', ''Python''), (''isbn13'', ''9788966261840'')],
              [(''bookname'', ''new''), (''authors'', [])]]
   \<and> search_books (answering \<lparr>status_code = 304, body = books_src\<rparr>)
         (fake_etree [(books_src, books_doc)]) ''python'' ''KEY'' 1 20 []
       = (Inr [[(''bookname'', ''Python''), (''isbn13'', ''9788966261840'')],
               [(''bookname'', ''new''), (''authors'', [])]],
          [srchBooks_request ''python'' ''KEY'' 1 20])"
  using request_failure_raises_ConnectionError
    [where api_key = "''KEY''" and isbn = "''9788966261840''" and region_code = "''11''"
       and e = "RequestException ''connection refused''"
       and get = "raising (RequestException ''connection refused'')"
       and net = "[]" and query = "''python''" and page_no = 1 and page_size = 20
       and lib = "fake_etree []"]
    request_failure_raises_ConnectionError
    [where api_key = "''KEY''" and isbn = "''9788966261840''" and region_code = "''11''"
       and resp = "\<lparr>status_code = 503, body = ''<libs/>''\<rparr>"
       and get = "answering \<lparr>status_code = 503, body = ''<libs/>''\<rparr>"
       and net = "[]" and query = "''python''" and page_no = 1 and page_size = 50
       and lib = "fake_etree [(''<libs/>'', node ''libs'' [])]"]
    request_failure_raises_ConnectionError
    [where api_key = "''KEY''" and isbn = "''9788966261840''" and region_code = "''11''"
       and resp = "\<lparr>status_code = 304, body = books_src\<rparr>"
       and get = "answering \<lparr>status_code = 304, body = books_src\<rparr>"
       and net = "[]" and query = "''python''" and page_no = 1 and page_size = 20
       and lib = "fake_etree [(books_src, books_doc)]"]
    parse_books
  by (simp add: raising_def answering_def)

text \<open>
  C4. When \<open>requests.get\<close> raises an exception that is not a \<open>RequestException\<close>, both
  operations, called with non-empty arguments, catch it and return the empty list. So
  they do when the response passes \<open>raise_for_status\<close> and the parser raises on its body:
  that exception is caught inside the normalizer.
\<close>

theorem unexpected_exception_gives_empty_list:
  assumes "api_key \<noteq> []" and "isbn \<noteq> []" and "region_code \<noteq> []"
      and "\<not> is_RequestException e"
  shows "(get net (srchBooks_request query api_key page_no page_size) = Inl e \<longrightarrow>
            search_books get lib query api_key page_no page_size net
              = (Inr [], net @ [srchBooks_request query api_key page_no page_size]))
       \<and> (get net (libSrchByBook_request isbn api_key region_code page_no page_size) = Inl e \<longrightarrow>
            find_libraries_for_book get lib isbn api_key region_code page_no page_size net
              = (Inr [], net @ [libSrchByBook_request isbn api_key region_code page_no page_size]))
       \<and> (get net (srchBooks_request query api_key page_no page_size) = Inr resp
            \<and> \<not> (400 \<le> status_code resp \<and> status_code resp < 600)
            \<and> fromstring lib (body resp) = Inl e' \<longrightarrow>
            search_books get lib query api_key page_no page_size net
              = (Inr [], net @ [srchBooks_request query api_key page_no page_size]))
       \<and> (get net (libSrchByBook_request isbn api_key region_code page_no page_size) = Inr resp
            \<and> \<not> (400 \<le> status_code resp \<and> status_code resp < 600)
            \<and> fromstring lib (body resp) = Inl e' \<longrightarrow>
            find_libraries_for_book get lib isbn api_key region_code page_no page_size net
              = (Inr [], net @ [libSrchByBook_request isbn api_key region_code page_no page_size]))"
  using assms
  by (auto simp add: search_books_def find_libraries_for_book_def on_exception_def Let_def
      raise_for_status_def parse_xml_response_def parse_xml_try_def)

theorem unexpected_exception_gives_empty_list_witness:
  "\<not> is_RequestException (OtherException ''codec'')
   \<and> raising (OtherException ''codec'') [] (srchBooks_request ''python'' ''KEY'' 1 20)
       = Inl (OtherException ''codec'')
   \<and> search_books (raising (OtherException ''codec'')) (fake_etree []) ''python'' ''KEY'' 1 20 []
       = (Inr [], [srchBooks_request ''python'' ''KEY'' 1 20])
   \<and> find_libraries_for_book (raising (OtherException ''codec'')) (fake_etree [])
         ''9788966261840'' ''KEY'' ''11'' 1 20 []
       = (Inr [], [libSrchByBook_request ''9788966261840'' ''KEY'' ''11'' 1 20])
   \<and> fromstring (fake_etree []) ''<html>busy'' = Inl ParseError
   \<and> search_books (answering \<lparr>status_code = 200, body = ''<html>busy''\<rparr>) (fake_etree [])
         ''python'' ''KEY'' 1 20 []
       = (Inr [], [srchBooks_request ''python'' ''KEY'' 1 20])"
  using unexpected_exception_gives_empty_list
    [where api_key = "''KEY''" and isbn = "''9788966261840''" and region_code = "''11''"
       and e = "OtherException ''codec''" and get = "raising (OtherException ''codec'')"
       and net = "[]" and query = "''python''" and page_no = 1 and page_size = 20
       and lib = "fake_etree []"]
    unexpected_exception_gives_empty_list
    [where api_key = "''KEY''" and isbn = "''9788966261840''" and region_code = "''11''"
       and e = "OtherException ''codec''" and e' = ParseError
       and get = "answering \<lparr>status_code = 200, body = ''<html>busy''\<rparr>"
       and resp = "\<lparr>status_code = 200, body = ''<html>busy''\<rparr>"
       and net = "[]" and query = "''python''" and page_no = 1 and page_size = 20
       and lib = "fake_etree []"]
  by (simp add: raising_def answering_def fake_etree_def)

text \<open>
  C9. As stated the claim fails: the lookup returns the records of the response in
  document order and drops none, so a response that lists a library code twice gives two
  records with that code.
\<close>

theorem repeated_code_in_one_lookup:
  "find_libraries_for_book (answering \<lparr>status_code = 200, body = repeated_src\<rparr>)
       (fake_etree [(repeated_src, repeated_doc)]) ''9788966261840'' ''KEY'' ''11'' 1 50 []
     = (Inr [[(''libCode'', ''111017''), (''libName'', ''A'')],
             [(''libCode'', ''111017''), (''libName'', ''B'')]],
        [libSrchByBook_request ''9788966261840'' ''KEY'' ''11'' 1 50])
   \<and> map_of [(''libCode'', ''111017''), (''libName'', ''A'')] ''libCode''
       = map_of [(''libCode'', ''111017''), (''libName'', ''B'')] ''libCode''"
  by (simp add: find_libraries_for_book_def answering_def raise_for_status_def Let_def
      parse_xml_response_def parse_xml_try_def fake_etree_def et_find_def et_findall_def
      plain_docs results_element_def repeated_doc_def node_def leaf_def text_content_def
      strip_def isspace_def)

lemma lookup_result:
  assumes "get net (libSrchByBook_request isbn api_key region_code page_no page_size) = Inr resp"
      and "fromstring lib (body resp) = Inr root"
      and "find_libraries_for_book get lib isbn api_key region_code page_no page_size net
             = (Inr records, net')"
  shows "records = map (\<lambda>e. item_fields (children e) []) (lib_items root)"
  using assms
  by (auto simp add: find_libraries_for_book_def Let_def on_exception_def raise_for_status_def
      parse_xml_response_def parse_xml_try_def et_find_def et_findall_def plain_docs
      collect_items_eq lib_items_def split: if_splits)

lemma lookup_codes:
  "map (\<lambda>d. map_of d ''libCode'') (map (\<lambda>e. item_fields (children e) []) items)
     = map item_code items"
  by (simp add: comp_def map_of_item_fields item_code_def split: option.splits)

lemma lookup_success:
  assumes "api_key \<noteq> []" and "isbn \<noteq> []" and "region_code \<noteq> []"
      and "get net (libSrchByBook_request isbn api_key region_code page_no page_size) = Inr resp"
      and "\<not> (400 \<le> status_code resp \<and> status_code resp < 600)"
      and "fromstring lib (body resp) = Inr root"
  shows "find_libraries_for_book get lib isbn api_key region_code page_no page_size net
           = (Inr (map (\<lambda>e. item_fields (children e) []) (lib_items root)),
              net @ [libSrchByBook_request isbn api_key region_code page_no page_size])"
  using assms
  by (auto simp add: find_libraries_for_book_def Let_def raise_for_status_def
      parse_xml_response_def parse_xml_try_def et_find_def et_findall_def plain_docs
      collect_items_eq lib_items_def)

text \<open>
  C9, amended. One holdings lookup drops no record: when the response has a status
  outside 400 to 599 and its body parses, the lookup returns exactly the records of the
  \<open>lib\<close> items of the document that have a child, in document order, and the library
  codes of the records are those of the items. So the records are unique by library code
  exactly when the items are, and whenever a lookup returns a list, the list is unique
  by library code if the items of the response document are.
\<close>

theorem lookup_repeats_no_code_the_document_does_not:
  "(api_key \<noteq> [] \<and> isbn \<noteq> [] \<and> region_code \<noteq> []
      \<and> get net (libSrchByBook_request isbn api_key region_code page_no page_size) = Inr resp
      \<and> \<not> (400 \<le> status_code resp \<and> status_code resp < 600)
      \<and> fromstring lib (body resp) = Inr root \<longrightarrow>
    find_libraries_for_book get lib isbn api_key region_code page_no page_size net
      = (Inr (map (\<lambda>e. item_fields (children e) []) (lib_items root)),
         net @ [libSrchByBook_request isbn api_key region_code page_no page_size])
    \<and> map (\<lambda>d. map_of d ''libCode'') (map (\<lambda>e. item_fields (children e) []) (lib_items root))
        = map item_code (lib_items root)
    \<and> (distinct (map (\<lambda>d. map_of d ''libCode'')
                   (map (\<lambda>e. item_fields (children e) []) (lib_items root)))
        = distinct (map item_code (lib_items root))))
   \<and> (find_libraries_for_book get lib isbn api_key region_code page_no page_size net
         = (Inr records, net')
       \<and> (\<forall>resp root.
             get net (libSrchByBook_request isbn api_key region_code page_no page_size) = Inr resp
             \<and> fromstring lib (body resp) = Inr root
             \<longrightarrow> distinct (map item_code (lib_items root))) \<longrightarrow>
       distinct (map (\<lambda>d. map_of d ''libCode'') records))"
proof (intro conjI impI)
  assume h: "api_key \<noteq> [] \<and> isbn \<noteq> [] \<and> region_code \<noteq> []
      \<and> get net (libSrchByBook_request isbn api_key region_code page_no page_size) = Inr resp
      \<and> \<not> (400 \<le> status_code resp \<and> status_code resp < 600)
      \<and> fromstring lib (body resp) = Inr root"
  then show "find_libraries_for_book get lib isbn api_key region_code page_no page_size net
      = (Inr (map (\<lambda>e. item_fields (children e) []) (lib_items root)),
         net @ [libSrchByBook_request isbn api_key region_code page_no page_size])"
    using lookup_success [of api_key isbn region_code get net page_no page_size resp lib root]
    by blast
  show "map (\<lambda>d. map_of d ''libCode'') (map (\<lambda>e. item_fields (children e) []) (lib_items root))
        = map item_code (lib_items root)"
    by (rule lookup_codes)
  show "distinct (map (\<lambda>d. map_of d ''libCode'')
                   (map (\<lambda>e. item_fields (children e) []) (lib_items root)))
        = distinct (map item_code (lib_items root))"
    by (simp only: lookup_codes)
next
  assume h: "find_libraries_for_book get lib isbn api_key region_code page_no page_size net
         = (Inr records, net')
       \<and> (\<forall>resp root.
             get net (libSrchByBook_request isbn api_key region_code page_no page_size) = Inr resp
             \<and> fromstring lib (body resp) = Inr root
             \<longrightarrow> distinct (map item_code (lib_items root)))"
  then have run: "find_libraries_for_book get lib isbn api_key region_code page_no page_size net
         = (Inr records, net')"
    and doc: "\<And>resp root.
             get net (libSrchByBook_request isbn api_key region_code page_no page_size) = Inr resp
             \<Longrightarrow> fromstring lib (body resp) = Inr root
             \<Longrightarrow> distinct (map item_code (lib_items root))"
    by blast+
  show "distinct (map (\<lambda>d. map_of d ''libCode'') records)"
  proof (cases "get net (libSrchByBook_request isbn api_key region_code page_no page_size)")
    case (Inl e)
    with run have "records = []"
      by (auto simp add: find_libraries_for_book_def Let_def on_exception_def split: if_splits)
    then show ?thesis by simp
  next
    case (Inr resp)
    show ?thesis
    proof (cases "fromstring lib (body resp)")
      case (Inl e)
      with Inr run have "records = []"
        by (auto simp add: find_libraries_for_book_def Let_def on_exception_def
            raise_for_status_def parse_xml_response_def parse_xml_try_def split: if_splits)
      then show ?thesis by simp
    next
      case root: (Inr root)
      have "records = map (\<lambda>e. item_fields (children e) []) (lib_items root)"
        using lookup_result [OF Inr root run] .
      with doc [OF Inr root] show ?thesis
        by (simp only: lookup_codes)
    qed
  qed
qed

theorem lookup_repeats_no_code_the_document_does_not_witness:
  "''KEY'' \<noteq> [] \<and> ''9788966261840'' \<noteq> [] \<and> ''11'' \<noteq> []
   \<and> answering \<lparr>status_code = 200, body = seoul_src\<rparr> []
         (libSrchByBook_request ''9788966261840'' ''KEY'' ''11'' 1 50)
       = Inr \<lparr>status_code = 200, body = seoul_src\<rparr>
   \<and> \<not> (400 \<le> (200::int) \<and> (200::int) < 600)
   \<and> fromstring (fake_etree [(seoul_src, seoul_doc)]) seoul_src = Inr seoul_doc
   \<and> map (\<lambda>e. item_fields (children e) []) (lib_items seoul_doc) = libraries_seoul
   \<and> find_libraries_for_book (answering \<lparr>status_code = 200, body = seoul_src\<rparr>)
         (fake_etree [(seoul_src, seoul_doc)]) ''9788966261840'' ''KEY'' ''11'' 1 50 []
       = (Inr libraries_seoul, [libSrchByBook_request ''9788966261840'' ''KEY'' ''11'' 1 50])
   \<and> distinct (map item_code (lib_items seoul_doc))
   \<and> distinct (map (\<lambda>d. map_of d ''libCode'') libraries_seoul)"
proof -
  let ?get = "answering \<lparr>status_code = 200, body = seoul_src\<rparr>"
  let ?lib = "fake_etree [(seoul_src, seoul_doc)]"
  let ?req = "libSrchByBook_request ''9788966261840'' ''KEY'' ''11'' 1 50"
  have args: "''KEY'' \<noteq> [] \<and> ''9788966261840'' \<noteq> [] \<and> ''11'' \<noteq> []" by simp
  have get: "?get [] ?req = Inr \<lparr>status_code = 200, body = seoul_src\<rparr>"
    by (simp add: answering_def)
  have st: "\<not> (400 \<le> (200::int) \<and> (200::int) < 600)" by simp
  have doc: "fromstring ?lib seoul_src = Inr seoul_doc" by (simp add: fake_etree_def)
  have recs: "map (\<lambda>e. item_fields (children e) []) (lib_items seoul_doc) = libraries_seoul"
    by (simp add: lib_items_def seoul_doc_def node_def leaf_def results_element_def
        text_content_def strip_def isspace_def libraries_seoul_def)
  have codes: "distinct (map item_code (lib_items seoul_doc))"
    by (simp add: lib_items_def item_code_def seoul_doc_def node_def leaf_def
        results_element_def text_content_def strip_def isspace_def)
  note t = lookup_repeats_no_code_the_document_does_not
    [where api_key = "''KEY''" and isbn = "''9788966261840''" and region_code = "''11''"
       and get = ?get and net = "[]" and page_no = 1 and page_size = 50 and lib = ?lib
       and resp = "\<lparr>status_code = 200, body = seoul_src\<rparr>" and root = seoul_doc
       and records = libraries_seoul and net' = "[?req]"]
  from t get doc have run: "find_libraries_for_book ?get ?lib ''9788966261840'' ''KEY'' ''11'' 1 50 []
      = (Inr libraries_seoul, [?req])"
    by (simp add: recs)
  have "distinct (map item_code (lib_items root))"
    if "?get [] ?req = Inr resp \<and> fromstring ?lib (body resp) = Inr root" for resp root
  proof -
    from that have "body resp = seoul_src" by (auto simp add: answering_def)
    with that have "root = seoul_doc" by (simp add: fake_etree_def)
    with codes show ?thesis by simp
  qed
  with t run have uniq: "distinct (map (\<lambda>d. map_of d ''libCode'') libraries_seoul)"
    by blast
  show ?thesis
    by (intro conjI) (rule get st doc recs run codes uniq | simp)+
qed

section \<open>Properties of the data frames\<close>

lemma cell_at_update: "cell_at (AList.update k v r) k' = (if k' = k then v else cell_at r k')"
  by (simp add: cell_at_def update_conv')

lemma getitem_present:
  "c \<in> set (columns df) \<Longrightarrow> getitem df c = Inr (map (\<lambda>r. cell_at r c) (rows df))"
  by (simp add: getitem_def)

lemma setitem_to_numeric:
  "c \<in> set (columns df) \<Longrightarrow>
     setitem df c (to_numeric parse (map (\<lambda>r. cell_at r c) (rows df)))
       = \<lparr>columns = columns df,
          rows = map (\<lambda>r. AList.update c (coerce parse (cell_at r c)) r) (rows df)\<rparr>"
  by (simp add: setitem_def to_numeric_def zip_map2 zip_same_conv_map comp_def)

lemma coerce_Num: "coerce parse v \<noteq> NaN \<Longrightarrow> \<exists>x. coerce parse v = Num x"
  by (cases v) (auto split: option.splits)

lemma cell_at_numeric_row:
  "cell_at (numeric_row parse r) ''latitude'' = coerce parse (cell_at r ''latitude'')"
  "cell_at (numeric_row parse r) ''longitude'' = coerce parse (cell_at r ''longitude'')"
  "c \<noteq> ''latitude'' \<Longrightarrow> c \<noteq> ''longitude'' \<Longrightarrow> cell_at (numeric_row parse r) c = cell_at r c"
  by (simp_all add: numeric_row_def cell_at_update)

lemma coordinate_steps:
  assumes "''latitude'' \<in> set (columns df)" and "''longitude'' \<in> set (columns df)"
  shows "getitem df ''latitude'' = Inr (map (\<lambda>r. cell_at r ''latitude'') (rows df))"
    and "getitem (setitem df ''latitude'' (to_numeric parse (map (\<lambda>r. cell_at r ''latitude'') (rows df))))
           ''longitude''
         = Inr (map (\<lambda>r. cell_at r ''longitude'') (rows df))"
    and "dropna (setitem (setitem df ''latitude'' (to_numeric parse (map (\<lambda>r. cell_at r ''latitude'') (rows df))))
           ''longitude'' (to_numeric parse (map (\<lambda>r. cell_at r ''longitude'') (rows df))))
           [''latitude'', ''longitude'']
         = Inr (numeric_frame parse df)"
proof -
  let ?df1 = "setitem df ''latitude'' (to_numeric parse (map (\<lambda>r. cell_at r ''latitude'') (rows df)))"
  have df1: "?df1 = \<lparr>columns = columns df,
      rows = map (\<lambda>r. AList.update ''latitude'' (coerce parse (cell_at r ''latitude'')) r) (rows df)\<rparr>"
    using assms(1) by (rule setitem_to_numeric)
  show "getitem df ''latitude'' = Inr (map (\<lambda>r. cell_at r ''latitude'') (rows df))"
    using assms(1) by (rule getitem_present)
  show 2: "getitem ?df1 ''longitude'' = Inr (map (\<lambda>r. cell_at r ''longitude'') (rows df))"
    using assms(2) by (simp add: df1 getitem_def comp_def cell_at_update)
  have lon: "map (\<lambda>r. cell_at r ''longitude'') (rows df) = map (\<lambda>r. cell_at r ''longitude'') (rows ?df1)"
    by (simp add: df1 comp_def cell_at_update)
  have "''longitude'' \<in> set (columns ?df1)"
    using assms(2) by (simp add: df1)
  from setitem_to_numeric [OF this, of parse]
  have df2: "setitem ?df1 ''longitude'' (to_numeric parse (map (\<lambda>r. cell_at r ''longitude'') (rows df)))
     = \<lparr>columns = columns df, rows = map (numeric_row parse) (rows df)\<rparr>"
    unfolding lon [symmetric]
    by (simp add: df1 comp_def numeric_row_def cell_at_update)
  show "dropna (setitem ?df1 ''longitude'' (to_numeric parse (map (\<lambda>r. cell_at r ''longitude'') (rows df))))
           [''latitude'', ''longitude'']
         = Inr (numeric_frame parse df)"
    using assms
    by (simp add: df2 dropna_def numeric_frame_def filter_map comp_def cell_at_numeric_row
        located_def [abs_def])
qed

lemma numeric_row_is_numeric:
  assumes "located parse r"
  shows "\<exists>x y. cell_at (numeric_row parse r) ''latitude'' = Num x
             \<and> cell_at (numeric_row parse r) ''longitude'' = Num y"
  using assms coerce_Num [of parse "cell_at r ''latitude''"]
    coerce_Num [of parse "cell_at r ''longitude''"]
  by (auto simp add: located_def cell_at_numeric_row)

lemma keep_first_subset: "set (keep_first key seen xs) \<subseteq> set xs"
  by (induction xs arbitrary: seen) auto

lemma keep_first_keys: "key ` set (keep_first key seen xs) = key ` set xs - set seen"
  by (induction xs arbitrary: seen) auto

lemma keep_first_distinct: "distinct (map key (keep_first key seen xs))"
proof (induction xs arbitrary: seen)
  case Nil
  then show ?case by simp
next
  case (Cons x xs)
  have "key x \<notin> key ` set (keep_first key (key x # seen) xs)"
    by (simp add: keep_first_keys)
  with Cons show ?case by simp
qed

lemma keep_first_is_first:
  "r \<in> set (keep_first key seen xs) \<Longrightarrow> List.find (\<lambda>x. key x = key r) xs = Some r"
proof (induction xs arbitrary: seen)
  case Nil
  then show ?case by simp
next
  case (Cons x xs)
  show ?case
  proof (cases "key x \<in> set seen")
    case True
    with Cons.prems have r: "r \<in> set (keep_first key seen xs)" by simp
    then have "key r \<in> key ` set xs - set seen"
      using keep_first_keys [of key seen xs] by blast
    with True have "key x \<noteq> key r" by auto
    with Cons.IH [OF r] show ?thesis by simp
  next
    case False
    with Cons.prems have "r = x \<or> r \<in> set (keep_first key (key x # seen) xs)" by auto
    then show ?thesis
    proof
      assume "r = x"
      then show ?thesis by simp
    next
      assume r: "r \<in> set (keep_first key (key x # seen) xs)"
      then have "key r \<in> key ` set xs - set (key x # seen)"
        using keep_first_keys [of key "key x # seen" xs] by blast
      then have "key x \<noteq> key r" by auto
      with Cons.IH [OF r] show ?thesis by simp
    qed
  qed
qed

lemma keep_first_map:
  "keep_first key seen (map f xs) = map f (keep_first (\<lambda>x. key (f x)) seen xs)"
  by (induction xs arbitrary: seen) auto

lemma find_filter: "List.find Q (filter P xs) = List.find (\<lambda>x. P x \<and> Q x) xs"
  by (induction xs) auto

lemma find_map: "List.find Q (map f xs) = map_option f (List.find (\<lambda>x. Q (f x)) xs)"
  by (induction xs) auto

lemma count_distinct:
  "distinct (map f xs) \<Longrightarrow> length (filter (\<lambda>x. f x = c) xs) = (if c \<in> f ` set xs then 1 else 0)"
  by (induction xs) auto

lemma map_of_tabulate: "map_of (map (\<lambda>c. (c, f c)) cols) c = (if c \<in> set cols then Some (f c) else None)"
  by (induction cols) auto

lemma cell_at_dict_row:
  "cell_at (dict_row cols d) c =
     (if c \<in> set cols then (case map_of d c of Some v \<Rightarrow> Str v | None \<Rightarrow> NaN) else NaN)"
  by (simp add: cell_at_def dict_row_def map_of_tabulate)

lemma located_dict_row:
  "''latitude'' \<in> set cols \<Longrightarrow> ''longitude'' \<in> set cols \<Longrightarrow>
     located parse (dict_row cols d) = has_coordinates parse d"
  by (auto simp add: located_def has_coordinates_def cell_at_dict_row split: option.splits)

lemma code_dict_row:
  "''libCode'' \<in> set cols \<Longrightarrow>
     (cell_at (dict_row cols d') ''libCode'' = cell_at (dict_row cols d) ''libCode'')
       = (map_of d' ''libCode'' = map_of d ''libCode'')"
  "''libCode'' \<in> set cols \<Longrightarrow>
     (cell_at (dict_row cols d) ''libCode'' = Str code) = (map_of d ''libCode'' = Some code)"
  by (auto simp add: cell_at_dict_row split: option.splits)

lemma library_locations_eq:
  "library_locations parse libraries =
     (let df = DataFrame libraries
      in if ''latitude'' \<notin> set (columns df) then Inl (KeyError ''latitude'')
         else if ''longitude'' \<notin> set (columns df) then Inl (KeyError ''longitude'')
         else if ''libCode'' \<notin> set (columns df) then Inl (KeyError ''libCode'')
         else Inr \<lparr>columns = columns df,
                   rows = map (numeric_row parse)
                            (keep_first (\<lambda>r. cell_at r ''libCode'') []
                               (filter (located parse) (rows df)))\<rparr>)"
proof -
  let ?df = "DataFrame libraries :: 'a dataframe"
  show ?thesis
  proof (cases "''latitude'' \<in> set (columns ?df) \<and> ''longitude'' \<in> set (columns ?df)")
    case True
    then have lat: "''latitude'' \<in> set (columns ?df)" and lon: "''longitude'' \<in> set (columns ?df)"
      by simp_all
    have key: "keep_first (\<lambda>r. [cell_at r ''libCode'']) [] (map (numeric_row parse) xs)
        = map (numeric_row parse) (keep_first (\<lambda>r. cell_at r ''libCode'') [] xs)" for xs :: "'a row list"
    proof -
      have "keep_first (\<lambda>r. [cell_at r ''libCode'']) seen xs
          = keep_first (\<lambda>r. cell_at r ''libCode'') (map hd seen) xs"
        if "\<forall>k\<in>set seen. \<exists>c. k = [c]" for seen
        using that
      proof (induction xs arbitrary: seen)
        case Nil
        then show ?case by simp
      next
        case (Cons x xs)
        have "([cell_at x ''libCode''] \<in> set seen) = (cell_at x ''libCode'' \<in> hd ` set seen)"
          using Cons.prems by force
        moreover have "\<forall>k\<in>set ([cell_at x ''libCode''] # seen). \<exists>c. k = [c]"
          using Cons.prems by simp
        ultimately show ?case
          using Cons.IH [of seen] Cons.IH [of "[cell_at x ''libCode''] # seen"] Cons.prems
          by simp
      qed
      from this [of "[]"] show ?thesis
        by (simp add: keep_first_map cell_at_numeric_row)
    qed
    show ?thesis
      using lat lon
      by (simp add: library_locations_def Let_def coordinate_steps drop_duplicates_def
          numeric_frame_def key)
  next
    case False
    then show ?thesis
      by (auto simp add: library_locations_def Let_def getitem_def coordinate_steps
          setitem_def)
  qed
qed

lemma library_locations_codes:
  assumes "library_locations parse libraries = Inr df"
  shows "distinct (map (\<lambda>r. cell_at r ''libCode'') (rows df))
       \<and> (\<forall>code. length (filter (\<lambda>r. cell_at r ''libCode'' = Str code) (rows df)) =
             (if \<exists>d\<in>set libraries.
                   map_of d ''libCode'' = Some code \<and> has_coordinates parse d
              then 1 else 0))
       \<and> (\<forall>r\<in>set (rows df).
             \<exists>d. List.find
                    (\<lambda>d'. has_coordinates parse d' \<and> map_of d' ''libCode'' = map_of d ''libCode'')
                    libraries = Some d
                \<and> r = numeric_row parse (dict_row (columns df) d))"
proof -
  let ?code = "\<lambda>r :: 'a row. cell_at r ''libCode''"
  define cols where "cols = columns (DataFrame libraries :: 'a dataframe)"
  define located_rows where
    "located_rows = filter (located parse) (map (dict_row cols) libraries :: 'a row list)"
  from assms have lat: "''latitude'' \<in> set cols" and lon: "''longitude'' \<in> set cols"
    and code: "''libCode'' \<in> set cols"
    by (auto simp add: library_locations_eq Let_def cols_def split: if_splits)
  have R: "rows (DataFrame libraries :: 'a dataframe) = map (dict_row cols) libraries"
    by (simp add: DataFrame_def Let_def cols_def)
  from assms have df: "columns df = cols"
    "rows df = map (numeric_row parse) (keep_first ?code [] located_rows)"
    by (auto simp add: library_locations_eq Let_def R located_rows_def cols_def [symmetric]
        split: if_splits)
  have codes: "map ?code (rows df) = map ?code (keep_first ?code [] located_rows)"
    by (simp add: df comp_def cell_at_numeric_row)
  have 1: "distinct (map ?code (rows df))"
    unfolding codes by (rule keep_first_distinct)
  have set_codes: "?code ` set (rows df) = ?code ` set located_rows"
    using keep_first_keys [of ?code "[]" located_rows] codes
    by (metis Diff_empty list.set(1) set_map)
  have 2: "length (filter (\<lambda>r. ?code r = Str code) (rows df)) =
             (if \<exists>d\<in>set libraries. map_of d ''libCode'' = Some code \<and> has_coordinates parse d
              then 1 else 0)" for code
  proof -
    have "(Str code \<in> ?code ` set located_rows)
        = (\<exists>d\<in>set libraries. map_of d ''libCode'' = Some code \<and> has_coordinates parse d)"
    proof
      assume "Str code \<in> ?code ` set located_rows"
      then obtain d where "d \<in> set libraries" and "located parse (dict_row cols d :: 'a row)"
        and "cell_at (dict_row cols d :: 'a row) ''libCode'' = Str code"
        unfolding located_rows_def by force
      then show "\<exists>d\<in>set libraries. map_of d ''libCode'' = Some code \<and> has_coordinates parse d"
        using lat lon code located_dict_row [of cols parse d] code_dict_row(2) [of cols d code]
        by blast
    next
      assume "\<exists>d\<in>set libraries. map_of d ''libCode'' = Some code \<and> has_coordinates parse d"
      then obtain d where d: "d \<in> set libraries" and "map_of d ''libCode'' = Some code"
        and "has_coordinates parse d"
        by blast
      then have "located parse (dict_row cols d :: 'a row)"
        and c: "cell_at (dict_row cols d :: 'a row) ''libCode'' = Str code"
        using lat lon code located_dict_row [of cols parse d] code_dict_row(2) [of cols d code]
        by blast+
      with d have "dict_row cols d \<in> set located_rows"
        by (auto simp add: located_rows_def)
      with c show "Str code \<in> ?code ` set located_rows"
        by force
    qed
    with count_distinct [OF 1, of "Str code"] set_codes show ?thesis by simp
  qed
  have 3: "\<exists>d. List.find
                    (\<lambda>d'. has_coordinates parse d' \<and> map_of d' ''libCode'' = map_of d ''libCode'')
                    libraries = Some d
                \<and> r = numeric_row parse (dict_row (columns df) d)"
    if "r \<in> set (rows df)" for r
  proof -
    from that obtain r0 where r0: "r0 \<in> set (keep_first ?code [] located_rows)"
      and r: "r = numeric_row parse r0"
      by (auto simp add: df)
    from keep_first_is_first [OF r0]
    have "List.find (\<lambda>x. located parse x \<and> ?code x = ?code r0) (map (dict_row cols) libraries)
        = Some r0"
      by (simp add: located_rows_def find_filter)
    then obtain d where
      d: "List.find (\<lambda>d'. located parse (dict_row cols d' :: 'a row)
                        \<and> ?code (dict_row cols d') = ?code r0) libraries = Some d"
      and r0d: "r0 = dict_row cols d"
      by (auto simp add: find_map)
    have "(\<lambda>d'. located parse (dict_row cols d' :: 'a row) \<and> ?code (dict_row cols d') = ?code r0)
        = (\<lambda>d'. has_coordinates parse d' \<and> map_of d' ''libCode'' = map_of d ''libCode'')"
      using lat lon code by (simp add: r0d located_dict_row code_dict_row)
    with d r r0d show ?thesis by (auto simp add: df)
  qed
  from 1 2 3 show ?thesis by blast
qed

lemma render_map_eq:
  assumes "\<not> empty (heap s ! a)"
      and "''latitude'' \<in> set (columns (heap s ! a))"
      and "''longitude'' \<in> set (columns (heap s ! a))"
  shows "render_map parse st_map (Some a) s =
           (let kept = numeric_frame parse (heap s ! a);
                shown = \<lparr>columns = [''latitude'', ''longitude''],
                         rows = map (\<lambda>r. map (\<lambda>c. (c, cell_at r c)) [''latitude'', ''longitude''])
                                  (rows kept)\<rparr>
            in Inr \<lparr>heap = heap s @ [kept],
                    ui = ui s @
                      (if empty kept then [StWarning NoValidCoordinates]
                       else case st_map shown of
                              None \<Rightarrow> [StMap shown]
                            | Some e \<Rightarrow> [StMap shown, StError (RenderFailed e)])\<rparr>)"
  using assms
  by (simp add: render_map_def Let_def coordinate_steps select_columns_def
      numeric_frame_def split: option.splits)

lemma DataFrame_two_records:
  "DataFrame two_records =
     \<lparr>columns = [''latitude'', ''longitude''],
      rows = [[(''latitude'', Str ''37.5''), (''longitude'', Str ''127.0'')],
              [(''latitude'', Str ''invalid''), (''longitude'', Str ''127.0'')]]\<rparr>"
  by (simp add: DataFrame_def two_records_def first_seen_def dict_row_def)

lemma combine_libraries:
  "library_locations (fake_parse coordinates) (libraries_seoul @ libraries_gyeonggi)
     = Inr combined_frame"
  by (simp add: libraries_seoul_def libraries_gyeonggi_def library_locations_def DataFrame_def
      first_seen_def dict_row_def getitem_def setitem_def to_numeric_def cell_at_def
      fake_parse_def coordinates_def dropna_def drop_duplicates_def Let_def combined_frame_def)

lemma render_two_records:
  "render_map (fake_parse coordinates) st_map_ok (Some 0)
       \<lparr>heap = [DataFrame two_records], ui = []\<rparr>
     = Inr \<lparr>heap = [DataFrame two_records, shown_frame], ui = [StMap shown_frame]\<rparr>"
  by (simp add: render_map_def DataFrame_two_records empty_def getitem_def setitem_def
      to_numeric_def cell_at_def fake_parse_def coordinates_def dropna_def select_columns_def
      st_map_ok_def shown_frame_def Let_def)

lemma set_first_seen: "set (first_seen ks) = set ks"
proof -
  have "set (fold (\<lambda>k cols. if k \<in> set cols then cols else cols @ [k]) ks acc) = set ks \<union> set acc"
    for acc
    by (induction ks arbitrary: acc) auto
  then show ?thesis by (simp add: first_seen_def)
qed

lemma key_is_column:
  assumes "d \<in> set libraries" and "map_of d k = Some v"
  shows "k \<in> set (columns (DataFrame libraries))"
proof -
  from assms(2) have "k \<in> fst ` set d" by (rule map_of_SomeD [THEN imageI, of _ _ _ fst, simplified])
  with assms(1) show ?thesis
    by (auto simp add: DataFrame_def Let_def set_first_seen)
qed

lemma library_locations_fails:
  fixes parse :: "string \<Rightarrow> 'a option"
  assumes "library_locations parse libraries = Inl e"
  shows "\<not> (\<exists>d\<in>set libraries. map_of d ''libCode'' = Some code \<and> has_coordinates parse d)"
proof
  assume "\<exists>d\<in>set libraries. map_of d ''libCode'' = Some code \<and> has_coordinates parse d"
  then obtain d u v where d: "d \<in> set libraries" and "map_of d ''libCode'' = Some code"
    and "map_of d ''latitude'' = Some u" and "map_of d ''longitude'' = Some v"
    by (auto simp add: has_coordinates_def split: option.splits)
  then have "''libCode'' \<in> set (columns (DataFrame libraries :: 'a dataframe))"
    and "''latitude'' \<in> set (columns (DataFrame libraries :: 'a dataframe))"
    and "''longitude'' \<in> set (columns (DataFrame libraries :: 'a dataframe))"
    using key_is_column [OF d] by blast+
  with assms show False
    by (simp add: library_locations_eq Let_def)
qed

lemma src_distinct: "seoul_src \<noteq> gyeonggi_src"
  by (simp add: seoul_src_def gyeonggi_src_def)

lemma lookup_seoul:
  "find_libraries_for_book two_regions two_documents ''9788966261840'' ''KEY'' ''11'' 1 50 []
     = (Inr libraries_seoul, [libSrchByBook_request ''9788966261840'' ''KEY'' ''11'' 1 50])"
  by (simp add: find_libraries_for_book_def two_regions_def answering_by_region_def
      libSrchByBook_request_def raise_for_status_def Let_def two_documents_def
      parse_xml_response_def parse_xml_try_def fake_etree_def et_find_def et_findall_def
      plain_docs results_element_def seoul_doc_def node_def leaf_def text_content_def
      strip_def isspace_def libraries_seoul_def)

lemma lookup_gyeonggi:
  "find_libraries_for_book two_regions two_documents ''9788966261840'' ''KEY'' ''31'' 1 50
       [libSrchByBook_request ''9788966261840'' ''KEY'' ''11'' 1 50]
     = (Inr libraries_gyeonggi,
        [libSrchByBook_request ''9788966261840'' ''KEY'' ''11'' 1 50,
         libSrchByBook_request ''9788966261840'' ''KEY'' ''31'' 1 50])"
  by (simp add: find_libraries_for_book_def two_regions_def answering_by_region_def
      libSrchByBook_request_def raise_for_status_def Let_def two_documents_def
      parse_xml_response_def parse_xml_try_def fake_etree_def et_find_def et_findall_def
      plain_docs results_element_def gyeonggi_doc_def node_def leaf_def text_content_def
      strip_def isspace_def libraries_gyeonggi_def src_distinct [symmetric])

lemma search_two_regions:
  "library_search two_regions two_documents (fake_parse coordinates) (Some ''KEY'')
       ''9788966261840'' []
     = ((combined_frame, None),
        [libSrchByBook_request ''9788966261840'' ''KEY'' ''11'' 1 50,
         libSrchByBook_request ''9788966261840'' ''KEY'' ''31'' 1 50])"
  by (simp add: library_search_def library_search_try_def lookup_seoul lookup_gyeonggi
      combine_libraries Let_def)
    (simp add: libraries_seoul_def combined_frame_def empty_def)

section \<open>Properties of the library search and of the map\<close>

text \<open>
  C7. As stated the claim fails: the rows without numeric coordinates are dropped before
  the duplicates are, so a library code shared by the two result lists does not appear in
  the combined frame at all when none of its records has coordinates that read as
  numbers. Here code \<open>111017\<close> is the one code the two lists share, its latitude is empty
  in both, and the combined frame holds the other library only.
\<close>

theorem shared_code_without_coordinates_is_dropped:
  "filter (\<lambda>c. c \<in> set (map (\<lambda>d. map_of d ''libCode'') unlocated_gyeonggi))
       (map (\<lambda>d. map_of d ''libCode'') unlocated_seoul) = [Some ''111017'']
   \<and> library_locations (fake_parse coordinates) (unlocated_seoul @ unlocated_gyeonggi)
     = Inr \<lparr>columns = [''libCode'', ''latitude'', ''longitude''],
            rows = [[(''libCode'', Str ''111004''), (''latitude'', Num (375, 1)),
                     (''longitude'', Num (1269, 1))]]\<rparr>"
  by (simp add: unlocated_seoul_def unlocated_gyeonggi_def library_locations_def DataFrame_def
      first_seen_def dict_row_def getitem_def setitem_def to_numeric_def cell_at_def
      fake_parse_def coordinates_def dropna_def drop_duplicates_def Let_def)

text \<open>
  C7, amended. When the two lookups, region \<open>11\<close> then region \<open>31\<close>, return their lists,
  the library search leaves a frame in which no two rows have the same library code. A
  code appears exactly once when some record of the concatenation with that code has a
  latitude and a longitude that read as numbers, and not at all otherwise; the row kept
  is the one of the first such record, Seoul first.
\<close>

theorem combined_frame_has_each_located_code_once:
  assumes "key \<noteq> []"
      and "find_libraries_for_book get lib isbn key ''11'' 1 50 net = (Inr seoul, net1)"
      and "find_libraries_for_book get lib isbn key ''31'' 1 50 net1 = (Inr gyeonggi, net2)"
  shows "\<exists>df msg.
           library_search get lib parse (Some key) isbn net = ((df, msg), net2)
         \<and> distinct (map (\<lambda>r. cell_at r ''libCode'') (rows df))
         \<and> (\<forall>code. length (filter (\<lambda>r. cell_at r ''libCode'' = Str code) (rows df)) =
               (if \<exists>d\<in>set (seoul @ gyeonggi).
                     map_of d ''libCode'' = Some code \<and> has_coordinates parse d
                then 1 else 0))
         \<and> (\<forall>r\<in>set (rows df).
               \<exists>d. List.find
                      (\<lambda>d'. has_coordinates parse d' \<and> map_of d' ''libCode'' = map_of d ''libCode'')
                      (seoul @ gyeonggi) = Some d
                  \<and> r = numeric_row parse (dict_row (columns df) d))"
proof -
  define libraries where "libraries = seoul @ gyeonggi"
  have search: "library_search get lib parse (Some key) isbn net =
      (if libraries \<noteq> [] then
         (case library_locations parse libraries of
            Inl e \<Rightarrow> ((DataFrame_empty, Some (LibrarySearchFailed e)), net2)
          | Inr df \<Rightarrow>
              if empty df then ((DataFrame_empty, Some NoValidLocationData), net2)
              else ((df, None), net2))
       else ((DataFrame_empty, Some NoLibrariesFound), net2))"
    using assms
    by (simp add: library_search_def library_search_try_def libraries_def Let_def
        split: sum.splits)
  have none: ?thesis
    if "fst (fst (library_search get lib parse (Some key) isbn net)) = DataFrame_empty"
      and "snd (library_search get lib parse (Some key) isbn net) = net2"
      and "\<forall>code. \<not> (\<exists>d\<in>set libraries. map_of d ''libCode'' = Some code \<and> has_coordinates parse d)"
  proof -
    from that(1,2) obtain msg where
      "library_search get lib parse (Some key) isbn net = ((DataFrame_empty, msg), net2)"
      by (metis prod.collapse)
    with that(3) show ?thesis
      by (simp add: DataFrame_empty_def libraries_def)
  qed
  show ?thesis
  proof (cases "libraries = []")
    case True
    then show ?thesis by (intro none) (simp_all add: search)
  next
    case False
    show ?thesis
    proof (cases "library_locations parse libraries")
      case (Inl e)
      with False show ?thesis
        by (intro none) (simp_all add: search library_locations_fails)
    next
      case (Inr df)
      note codes = library_locations_codes [OF Inr]
      show ?thesis
      proof (cases "empty df")
        case True
        from Inr have "columns df \<noteq> []"
          by (auto simp add: library_locations_eq Let_def split: if_splits)
        with True have "rows df = []" by (simp add: empty_def)
        with codes have "\<forall>code. \<not> (\<exists>d\<in>set libraries. map_of d ''libCode'' = Some code
            \<and> has_coordinates parse d)"
          by (metis (no_types, lifting) filter.simps(1) list.size(3) zero_neq_one)
        with False Inr True show ?thesis
          by (intro none) (simp_all add: search)
      next
        case nonempty: False
        with False Inr have "library_search get lib parse (Some key) isbn net = ((df, None), net2)"
          by (simp add: search)
        with codes show ?thesis
          unfolding libraries_def by blast
      qed
    qed
  qed
qed

theorem combined_frame_has_each_located_code_once_witness:
  "''KEY'' \<noteq> []
   \<and> find_libraries_for_book two_regions two_documents ''9788966261840'' ''KEY'' ''11'' 1 50 []
       = (Inr libraries_seoul, [libSrchByBook_request ''9788966261840'' ''KEY'' ''11'' 1 50])
   \<and> find_libraries_for_book two_regions two_documents ''9788966261840'' ''KEY'' ''31'' 1 50
         [libSrchByBook_request ''9788966261840'' ''KEY'' ''11'' 1 50]
       = (Inr libraries_gyeonggi,
          [libSrchByBook_request ''9788966261840'' ''KEY'' ''11'' 1 50,
           libSrchByBook_request ''9788966261840'' ''KEY'' ''31'' 1 50])
   \<and> library_search two_regions two_documents (fake_parse coordinates) (Some ''KEY'')
         ''9788966261840'' []
       = ((combined_frame, None),
          [libSrchByBook_request ''9788966261840'' ''KEY'' ''11'' 1 50,
           libSrchByBook_request ''9788966261840'' ''KEY'' ''31'' 1 50])
   \<and> distinct (map (\<lambda>r. cell_at r ''libCode'') (rows combined_frame))
   \<and> length (filter (\<lambda>r. cell_at r ''libCode'' = Str ''111017'') (rows combined_frame)) = 1
   \<and> length (filter (\<lambda>r. cell_at r ''libCode'' = Str ''141001'') (rows combined_frame)) = 0
   \<and> cell_at (hd (rows combined_frame)) ''libName'' = Str ''A (11)''"
proof -
  have key: "''KEY'' \<noteq> []" by simp
  from combined_frame_has_each_located_code_once
    [OF key lookup_seoul lookup_gyeonggi, of "fake_parse coordinates"]
  have "distinct (map (\<lambda>r. cell_at r ''libCode'') (rows combined_frame))"
    by (simp add: search_two_regions)
  moreover have
    "length (filter (\<lambda>r. cell_at r ''libCode'' = Str ''111017'') (rows combined_frame)) = 1"
    "length (filter (\<lambda>r. cell_at r ''libCode'' = Str ''141001'') (rows combined_frame)) = 0"
    "cell_at (hd (rows combined_frame)) ''libName'' = Str ''A (11)''"
    by (simp_all add: combined_frame_def cell_at_def)
  ultimately show ?thesis
    using lookup_seoul lookup_gyeonggi search_two_regions by simp
qed

text \<open>
  C8. Every row of a frame that \<open>render_map\<close> passes to \<open>st.map\<close> has a number as latitude
  and a number as longitude: the rows passed are those of the argument whose two
  coordinates read as numbers, the others are dropped. The same holds of every row of
  the frame the library search builds. Of the two records with latitude \<open>37.5\<close> and
  \<open>invalid\<close> and longitude \<open>127.0\<close>, the first reaches the map and the second does not.
\<close>

theorem only_numeric_coordinates_reach_the_map:
  "(render_map parse st_map locations_df s = Inr s'
      \<and> StMap shown \<in> set (drop (length (ui s)) (ui s')) \<longrightarrow>
    (\<exists>a. locations_df = Some a
       \<and> rows shown =
           map (\<lambda>r. [(''latitude'', coerce parse (cell_at r ''latitude'')),
                      (''longitude'', coerce parse (cell_at r ''longitude''))])
             (filter (located parse) (rows (heap s ! a))))
    \<and> (\<forall>r\<in>set (rows shown).
          \<exists>x y. cell_at r ''latitude'' = Num x \<and> cell_at r ''longitude'' = Num y))
   \<and> (library_locations parse libraries = Inr df \<longrightarrow>
        (\<forall>r\<in>set (rows df).
           \<exists>x y. cell_at r ''latitude'' = Num x \<and> cell_at r ''longitude'' = Num y))
   \<and> (parse ''37.5'' = Some x \<and> parse ''127.0'' = Some y \<and> parse ''invalid'' = None \<longrightarrow>
        (\<exists>s' shown.
           render_map parse st_map (Some 0) \<lparr>heap = [DataFrame two_records], ui = []\<rparr> = Inr s'
           \<and> StMap shown \<in> set (ui s')
           \<and> rows shown = [[(''latitude'', Num x), (''longitude'', Num y)]]))"
proof (intro conjI impI)
  assume run: "render_map parse st_map locations_df s = Inr s'
      \<and> StMap shown \<in> set (drop (length (ui s)) (ui s'))"
  show "\<exists>a. locations_df = Some a
       \<and> rows shown =
           map (\<lambda>r. [(''latitude'', coerce parse (cell_at r ''latitude'')),
                      (''longitude'', coerce parse (cell_at r ''longitude''))])
             (filter (located parse) (rows (heap s ! a)))"
  proof (cases locations_df)
    case None
    with run show ?thesis by (auto simp add: render_map_def)
  next
    case (Some a)
    show ?thesis
    proof (cases "\<not> empty (heap s ! a) \<and> ''latitude'' \<in> set (columns (heap s ! a))
                 \<and> ''longitude'' \<in> set (columns (heap s ! a))")
      case True
      with run Some show ?thesis
        by (auto simp add: render_map_eq Let_def numeric_frame_def comp_def cell_at_numeric_row
            split: if_splits option.splits)
    next
      case False
      with run Some show ?thesis
        by (auto simp add: render_map_def split: if_splits)
    qed
  qed
  then obtain a where rows: "rows shown =
           map (\<lambda>r. [(''latitude'', coerce parse (cell_at r ''latitude'')),
                      (''longitude'', coerce parse (cell_at r ''longitude''))])
             (filter (located parse) (rows (heap s ! a)))"
    by blast
  show "\<forall>r\<in>set (rows shown).
          \<exists>x y. cell_at r ''latitude'' = Num x \<and> cell_at r ''longitude'' = Num y"
  proof
    fix r assume "r \<in> set (rows shown)"
    with rows obtain r0 where r0: "located parse r0"
      and r: "r = [(''latitude'', coerce parse (cell_at r0 ''latitude'')),
                   (''longitude'', coerce parse (cell_at r0 ''longitude''))]"
      by auto
    have "cell_at r ''latitude'' = cell_at (numeric_row parse r0) ''latitude''"
      and "cell_at r ''longitude'' = cell_at (numeric_row parse r0) ''longitude''"
      by (simp_all add: r cell_at_numeric_row) (simp_all add: cell_at_def)
    with numeric_row_is_numeric [OF r0] show
      "\<exists>x y. cell_at r ''latitude'' = Num x \<and> cell_at r ''longitude'' = Num y"
      by simp
  qed
next
  assume "library_locations parse libraries = Inr df"
  then have "rows df = map (numeric_row parse)
      (keep_first (\<lambda>r. cell_at r ''libCode'') []
         (filter (located parse) (rows (DataFrame libraries))))"
    by (auto simp add: library_locations_eq Let_def split: if_splits)
  moreover have "set (keep_first (\<lambda>r. cell_at r ''libCode'') []
         (filter (located parse) (rows (DataFrame libraries :: 'a dataframe))))
      \<subseteq> {r. located parse r}"
    using keep_first_subset [of "\<lambda>r. cell_at r ''libCode''" "[]"
        "filter (located parse) (rows (DataFrame libraries :: 'a dataframe))"]
    by auto
  ultimately show "\<forall>r\<in>set (rows df).
           \<exists>x y. cell_at r ''latitude'' = Num x \<and> cell_at r ''longitude'' = Num y"
    using numeric_row_is_numeric [of parse] by auto
next
  assume p: "parse ''37.5'' = Some x \<and> parse ''127.0'' = Some y \<and> parse ''invalid'' = None"
  let ?shown = "\<lparr>columns = [''latitude'', ''longitude''],
                 rows = [[(''latitude'', Num x), (''longitude'', Num y)]]\<rparr>"
  have kept: "numeric_frame parse (DataFrame two_records)
      = \<lparr>columns = [''latitude'', ''longitude''],
         rows = [[(''latitude'', Num x), (''longitude'', Num y)]]\<rparr>"
    using p
    by (simp add: DataFrame_two_records numeric_frame_def located_def numeric_row_def
        cell_at_def)
  have eq: "render_map parse st_map (Some 0) \<lparr>heap = [DataFrame two_records], ui = []\<rparr>
      = (let kept = numeric_frame parse (DataFrame two_records);
             shown = \<lparr>columns = [''latitude'', ''longitude''],
                      rows = map (\<lambda>r. map (\<lambda>c. (c, cell_at r c)) [''latitude'', ''longitude''])
                               (rows kept)\<rparr>
         in Inr \<lparr>heap = [DataFrame two_records] @ [kept],
                 ui = [] @
                   (if empty kept then [StWarning NoValidCoordinates]
                    else case st_map shown of
                           None \<Rightarrow> [StMap shown]
                         | Some e \<Rightarrow> [StMap shown, StError (RenderFailed e)])\<rparr>)"
    using render_map_eq [of "\<lparr>heap = [DataFrame two_records], ui = []\<rparr>" 0 parse st_map]
    by (simp add: DataFrame_two_records empty_def)
  show "\<exists>s' shown.
           render_map parse st_map (Some 0) \<lparr>heap = [DataFrame two_records], ui = []\<rparr> = Inr s'
           \<and> StMap shown \<in> set (ui s')
           \<and> rows shown = [[(''latitude'', Num x), (''longitude'', Num y)]]"
    unfolding eq kept
    by (auto simp add: Let_def empty_def cell_at_def split: option.splits)
qed

theorem only_numeric_coordinates_reach_the_map_witness:
  "render_map (fake_parse coordinates) st_map_ok (Some 0)
       \<lparr>heap = [DataFrame two_records], ui = []\<rparr>
     = Inr \<lparr>heap = [DataFrame two_records, shown_frame], ui = [StMap shown_frame]\<rparr>
   \<and> StMap shown_frame \<in> set (drop (length ([] :: (int \<times> nat) st_call list)) [StMap shown_frame])
   \<and> library_locations (fake_parse coordinates) (libraries_seoul @ libraries_gyeonggi)
       = Inr combined_frame
   \<and> fake_parse coordinates ''37.5'' = Some (375, 1)
   \<and> fake_parse coordinates ''127.0'' = Some (1270, 1)
   \<and> fake_parse coordinates ''invalid'' = None
   \<and> list_all (\<lambda>r. \<exists>x y. cell_at r ''latitude'' = Num x \<and> cell_at r ''longitude'' = Num y)
         (rows shown_frame)
   \<and> list_all (\<lambda>r. \<exists>x y. cell_at r ''latitude'' = Num x \<and> cell_at r ''longitude'' = Num y)
         (rows combined_frame)
   \<and> rows shown_frame = [[(''latitude'', Num (375, 1)), (''longitude'', Num (1270, 1))]]"
proof -
  have p: "fake_parse coordinates ''37.5'' = Some (375, 1)"
    "fake_parse coordinates ''127.0'' = Some (1270, 1)"
    "fake_parse coordinates ''invalid'' = None"
    by (simp_all add: fake_parse_def coordinates_def)
  have m: "StMap shown_frame
      \<in> set (drop (length (ui \<lparr>heap = [DataFrame two_records], ui = []\<rparr>))
               (ui \<lparr>heap = [DataFrame two_records, shown_frame], ui = [StMap shown_frame]\<rparr>))"
    by simp
  note t = only_numeric_coordinates_reach_the_map
    [where parse = "fake_parse coordinates" and st_map = st_map_ok
       and locations_df = "Some 0" and s = "\<lparr>heap = [DataFrame two_records], ui = []\<rparr>"
       and s' = "\<lparr>heap = [DataFrame two_records, shown_frame], ui = [StMap shown_frame]\<rparr>"
       and shown = shown_frame and libraries = "libraries_seoul @ libraries_gyeonggi"
       and df = combined_frame and x = "(375, 1)" and y = "(1270, 1)"]
  from t render_two_records m
  have a: "list_all (\<lambda>r. \<exists>x y. cell_at r ''latitude'' = Num x \<and> cell_at r ''longitude'' = Num y)
         (rows shown_frame)"
    unfolding list_all_iff by blast
  from t combine_libraries
  have b: "list_all (\<lambda>r. \<exists>x y. cell_at r ''latitude'' = Num x \<and> cell_at r ''longitude'' = Num y)
         (rows combined_frame)"
    unfolding list_all_iff by blast
  have m2: "StMap shown_frame
      \<in> set (drop (length ([] :: (int \<times> nat) st_call list)) [StMap shown_frame])"
    by simp
  have r: "rows shown_frame = [[(''latitude'', Num (375, 1)), (''longitude'', Num (1270, 1))]]"
    by (simp add: shown_frame_def)
  show ?thesis
    by (intro conjI) (rule render_two_records combine_libraries p a b m2 r)+
qed

text \<open>
  C10. \<open>render_map\<close> returns, and every frame of the store that existed before the call,
  its argument among them, is the same after it: the assignments and \<open>dropna\<close> update
  the copy, which is a new frame.
\<close>

theorem render_map_leaves_its_argument_unchanged:
  "\<exists>s'. render_map parse st_map locations_df s = Inr s'
        \<and> take (length (heap s)) (heap s') = heap s
        \<and> (\<forall>a. locations_df = Some a \<and> a < length (heap s) \<longrightarrow> heap s' ! a = heap s ! a)"
proof (cases locations_df)
  case None
  then show ?thesis by (simp add: render_map_def)
next
  case (Some a)
  show ?thesis
  proof (cases "\<not> empty (heap s ! a) \<and> ''latitude'' \<in> set (columns (heap s ! a))
                 \<and> ''longitude'' \<in> set (columns (heap s ! a))")
    case True
    then show ?thesis
      using Some by (simp add: render_map_eq Let_def nth_append)
  next
    case False
    then show ?thesis
      using Some by (auto simp add: render_map_def)
  qed
qed

theorem render_map_leaves_its_argument_unchanged_witness:
  "render_map (fake_parse coordinates) st_map_ok (Some 0)
       \<lparr>heap = [DataFrame two_records], ui = []\<rparr>
     = Inr \<lparr>heap = [DataFrame two_records, shown_frame], ui = [StMap shown_frame]\<rparr>
   \<and> (0::nat) < length [DataFrame two_records :: (int \<times> nat) dataframe]
   \<and> [DataFrame two_records, shown_frame] ! 0 = DataFrame two_records
   \<and> take 1 [DataFrame two_records, shown_frame] = [DataFrame two_records]"
  using render_map_leaves_its_argument_unchanged
    [where parse = "fake_parse coordinates" and st_map = st_map_ok and locations_df = "Some 0"
       and s = "\<lparr>heap = [DataFrame two_records], ui = []\<rparr>"]
    render_two_records
  by simp

end
